theory Spec2Isabelle
  imports Complex_Main "HOL-Library.AList"
begin

section \<open>Go runtime: strings, integers, errors\<close>

text \<open>
  Go strings are byte sequences, here \<open>string\<close>. An \<open>error\<close> value of the program is
  either built by \<open>fmt.Errorf\<close> (its message is kept) or is the \<open>*strconv.NumError\<close> that
  \<open>strconv.Atoi\<close> returns (its input is kept); \<open>nil\<close> is \<open>None\<close> of \<open>error option\<close>.
\<close>

datatype error = Errorf string | ErrSyntax string | ErrRange string

text \<open>The values of type \<open>interface{}\<close> that reach the validators: an \<open>int\<close> or a string.\<close>

datatype val = IntVal int | StrVal string

text \<open>\<open>strings.Trim(s, cutset)\<close>: drop the leading and trailing bytes that are in the cutset.\<close>

definition Trim :: "string \<Rightarrow> string \<Rightarrow> string" where
  "Trim s cutset =
     rev (dropWhile (\<lambda>c. c \<in> set cutset) (rev (dropWhile (\<lambda>c. c \<in> set cutset) s)))"

text \<open>\<open>helper.Contains\<close>: membership in a slice.\<close>

definition Contains :: "string list \<Rightarrow> string \<Rightarrow> bool" where
  "Contains xs x = (x \<in> set xs)"

definition digit_char :: "nat \<Rightarrow> char" where
  "digit_char d = ''0123456789'' ! d"

fun digits :: "nat \<Rightarrow> string" where
  "digits n = (if n < 10 then [digit_char n] else digits (n div 10) @ [digit_char (n mod 10)])"

declare digits.simps [simp del]

text \<open>\<open>fmt.Sprintf("%v", val)\<close>: a string is printed as it is, an \<open>int\<close> in decimal.\<close>

fun Sprintf_v :: "val \<Rightarrow> string" where
  "Sprintf_v (StrVal s) = s"
| "Sprintf_v (IntVal n) = (if n < 0 then CHR ''-'' # digits (nat (- n)) else digits (nat n))"

definition digit_val :: "char \<Rightarrow> int option" where
  "digit_val ch =
     (let n = (of_char ch :: nat) in
      if of_char (CHR ''0'') \<le> n \<and> n \<le> of_char (CHR ''9'')
      then Some (int n - int (of_char (CHR ''0''))) else None)"

text \<open>
  The digit loop of \<open>strconv.ParseUint\<close> in base 10, which \<open>strconv.Atoi\<close> runs (its
  own loop for strings of fewer than 19 bytes is the same loop, where the range cannot be left):
  \<open>ch -= '0'\<close>, a syntax error when \<open>ch > 9\<close>, a range error as soon as \<open>n*10 + ch\<close>
  leaves \<open>uint64\<close>, and \<open>n = n*10 + ch\<close>.
\<close>

datatype num_error = Syntax | Range

fun parse_digits :: "string \<Rightarrow> int \<Rightarrow> num_error + int" where
  "parse_digits [] n = Inr n"
| "parse_digits (c # cs) n =
     (case digit_val c of
        None \<Rightarrow> Inl Syntax
      | Some d \<Rightarrow> if n * 10 + d > 2 ^ 64 - 1 then Inl Range else parse_digits cs (n * 10 + d))"

text \<open>
  \<open>strconv.Atoi\<close> on a 64-bit platform: an optional sign, at least one decimal digit, nothing
  else; a value outside the range of \<open>int\<close> is a range error. The first byte that fails
  decides the kind of the error.
\<close>

definition Atoi :: "string \<Rightarrow> error + int" where
  "Atoi s =
     (case s of
        [] \<Rightarrow> Inl (ErrSyntax s)
      | c # cs \<Rightarrow>
          (let body = (if c = CHR ''-'' \<or> c = CHR ''+'' then cs else s) in
           if body = [] then Inl (ErrSyntax s)
           else (case parse_digits body 0 of
                   Inl Syntax \<Rightarrow> Inl (ErrSyntax s)
                 | Inl Range \<Rightarrow> Inl (ErrRange s)
                 | Inr n \<Rightarrow>
                     (let v = (if c = CHR ''-'' then - n else n) in
                      if - (2 ^ 63) \<le> v \<and> v < 2 ^ 63 then Inr v else Inl (ErrRange s)))))"

text \<open>Go's \<open>%\<close> on \<open>int\<close>: the remainder of the division that truncates towards zero.\<close>

definition go_rem :: "int \<Rightarrow> int \<Rightarrow> int" where
  "go_rem a b = sgn a * (\<bar>a\<bar> mod \<bar>b\<bar>)"

text \<open>
  A \<open>float64\<close> as \<open>strconv.ParseFloat\<close> returns it, and the comparison \<open>price <= 0\<close> on it
  (false for a NaN).
\<close>

datatype float64 = Finite real | PosInf | NegInf | NaN

fun le_zero :: "float64 \<Rightarrow> bool" where
  "le_zero (Finite x) = (x \<le> 0)"
| "le_zero PosInf = False"
| "le_zero NegInf = True"
| "le_zero NaN = False"

fun gt_zero :: "float64 \<Rightarrow> bool" where
  "gt_zero (Finite x) = (0 < x)"
| "gt_zero PosInf = True"
| "gt_zero NegInf = False"
| "gt_zero NaN = False"

section \<open>Regular expressions\<close>

text \<open>
  The fragment of Go's \<open>regexp\<close> syntax that \<open>machinePoolKeyRE\<close> uses: character classes
  (unions of inclusive ranges), concatenation, \<open>*\<close> and \<open>?\<close>. The pattern is anchored by
  \<open>^\<close> and \<open>$\<close> (no multi-line flag), so \<open>MatchString\<close> holds when the whole string is
  in the language; it is decided with Brzozowski derivatives.
\<close>

datatype regexp =
    Null
  | Eps
  | Chars "(char \<times> char) list"
  | Cat regexp regexp
  | Alt regexp regexp
  | Star regexp

definition Opt :: "regexp \<Rightarrow> regexp" where
  "Opt r = Alt r Eps"

fun in_class :: "(char \<times> char) list \<Rightarrow> char \<Rightarrow> bool" where
  "in_class [] c = False"
| "in_class ((lo, hi) # rs) c =
     ((of_char lo \<le> (of_char c :: nat) \<and> (of_char c :: nat) \<le> of_char hi) \<or> in_class rs c)"

fun nullable :: "regexp \<Rightarrow> bool" where
  "nullable Null = False"
| "nullable Eps = True"
| "nullable (Chars rs) = False"
| "nullable (Cat r s) = (nullable r \<and> nullable s)"
| "nullable (Alt r s) = (nullable r \<or> nullable s)"
| "nullable (Star r) = True"

fun deriv :: "char \<Rightarrow> regexp \<Rightarrow> regexp" where
  "deriv c Null = Null"
| "deriv c Eps = Null"
| "deriv c (Chars rs) = (if in_class rs c then Eps else Null)"
| "deriv c (Cat r s) =
     (if nullable r then Alt (Cat (deriv c r) s) (deriv c s) else Cat (deriv c r) s)"
| "deriv c (Alt r s) = Alt (deriv c r) (deriv c s)"
| "deriv c (Star r) = Cat (deriv c r) (Star r)"

fun MatchString :: "regexp \<Rightarrow> string \<Rightarrow> bool" where
  "MatchString r [] = nullable r"
| "MatchString r (c # cs) = MatchString (deriv c r) cs"

text \<open>The language of a regular expression, to reason about \<open>MatchString\<close>.\<close>

inductive_set star :: "string set \<Rightarrow> string set" for A :: "string set" where
  star_nil: "[] \<in> star A"
| star_app: "u \<in> A \<Longrightarrow> v \<in> star A \<Longrightarrow> u @ v \<in> star A"

fun lang :: "regexp \<Rightarrow> string set" where
  "lang Null = {}"
| "lang Eps = {[]}"
| "lang (Chars rs) = {[c] | c. in_class rs c}"
| "lang (Cat r s) = {u @ v | u v. u \<in> lang r \<and> v \<in> lang s}"
| "lang (Alt r s) = lang r \<union> lang s"
| "lang (Star r) = star (lang r)"

section \<open>pkg/machinepool/machinepool.go: the pure helpers\<close>

text \<open>\<open>machinePoolKeyRE\<close>: \<^verbatim>\<open>^[a-z]([-a-z0-9]*[a-z0-9])?$\<close>.\<close>

definition machinePoolKeyRE :: regexp where
  "machinePoolKeyRE =
     Cat (Chars [(CHR ''a'', CHR ''z'')])
         (Opt (Cat (Star (Chars [(CHR ''-'', CHR ''-''), (CHR ''a'', CHR ''z''), (CHR ''0'', CHR ''9'')]))
                   (Chars [(CHR ''a'', CHR ''z''), (CHR ''0'', CHR ''9'')])))"

text \<open>
  The pattern \<^verbatim>\<open>^[a-z]([-a-z0-9]*[a-z0-9])?$\<close> read from the specification, character
  by character: a lower-case letter, then nothing, or any number of letters, digits and
  hyphens and last a letter or a digit. It is compared with \<open>machinePoolKeyRE\<close> below.
\<close>

definition name_shape :: "string \<Rightarrow> bool" where
  "name_shape s =
     (case s of
        [] \<Rightarrow> False
      | c # rest \<Rightarrow>
          in_class [(CHR ''a'', CHR ''z'')] c
          \<and> (rest = []
             \<or> (list_all (in_class [(CHR ''-'', CHR ''-''), (CHR ''a'', CHR ''z''), (CHR ''0'', CHR ''9'')])
                   (butlast rest)
                \<and> in_class [(CHR ''a'', CHR ''z''), (CHR ''0'', CHR ''9'')] (last rest))))"

definition minReplicaValidator :: "bool \<Rightarrow> val \<Rightarrow> error option" where
  "minReplicaValidator multiAZMachinePool v =
     (case Atoi (Sprintf_v v) of
        Inl err \<Rightarrow> Some err
      | Inr minReplicas \<Rightarrow>
          if minReplicas < 0 then Some (Errorf ''min-replicas must be a non-negative integer'')
          else if multiAZMachinePool \<and> go_rem minReplicas 3 \<noteq> 0
          then Some (Errorf ''Multi AZ clusters require that the replicas be a multiple of 3'')
          else None)"

definition maxReplicaValidator :: "int \<Rightarrow> bool \<Rightarrow> val \<Rightarrow> error option" where
  "maxReplicaValidator minReplicas multiAZMachinePool v =
     (case Atoi (Sprintf_v v) of
        Inl err \<Rightarrow> Some err
      | Inr maxReplicas \<Rightarrow>
          if minReplicas > maxReplicas
          then Some (Errorf ''max-replicas must be greater or equal to min-replicas'')
          else if multiAZMachinePool \<and> go_rem maxReplicas 3 \<noteq> 0
          then Some (Errorf ''Multi AZ clusters require that the replicas be a multiple of 3'')
          else None)"

text \<open>
  \<open>spotMaxPriceValidator\<close>. \<open>strconv.ParseFloat\<close> and the bit size \<open>commonUtils.MaxByteSize\<close>
  are parameters: \<open>ParseFloat s bits\<close> is the pair of the value and the error that Go returns.
\<close>

definition spotMaxPriceValidator ::
  "(string \<Rightarrow> int \<Rightarrow> float64 \<times> string option) \<Rightarrow> int \<Rightarrow> val \<Rightarrow> error option" where
  "spotMaxPriceValidator ParseFloat MaxByteSize v =
     (let spotMaxPrice = Sprintf_v v in
      if spotMaxPrice = ''on-demand'' then None
      else (case ParseFloat spotMaxPrice MaxByteSize of
              (price, Some err) \<Rightarrow> Some (Errorf ''Expected a numeric value for spot max price'')
            | (price, None) \<Rightarrow>
                if le_zero price then Some (Errorf ''Spot max price must be positive'')
                else None))"

section \<open>The cluster, the user options and the collaborators\<close>

text \<open>The fields of \<open>cmv1.Cluster\<close> that the creation functions read.\<close>

record Cluster =
  ClusterID :: string
  MultiAZ :: bool
  AvailabilityZones :: "string list"
  VersionRawID :: string
  VersionChannelGroup :: string
  RegionID :: string
  RoleARN :: string
  FlavourID :: string
  SubnetIDs :: "string list"

record CreateMachinepoolUserOptions =
  Name :: string
  InstanceType :: string
  Replicas :: int
  AutoscalingEnabled :: bool
  MinReplicas :: int
  MaxReplicas :: int
  Labels :: string
  Taints :: string
  UseSpotInstances :: bool
  SpotMaxPrice :: string
  MultiAvailabilityZone :: bool
  AvailabilityZone :: string
  Subnet :: string
  Version :: string
  Autorepair :: bool
  TuningConfigs :: string
  KubeletConfigs :: string
  RootDiskSize :: string
  SecurityGroupIds :: "string list"
  NodeDrainGracePeriod :: string
  Tags :: "string list"

text \<open>
  The machine pool that \<open>cmv1.NewMachinePool()\<close> and \<open>cmv1.NewAWSMachinePool()\<close> build: a
  field that the builder was not given is \<open>None\<close>. \<open>mp_SpotMarketOptions = Some None\<close>
  is spot market options without a max price.
\<close>

record MachinePool =
  mp_ID :: string
  mp_InstanceType :: string
  mp_Labels :: "(string \<times> string) list"
  mp_Taints :: "string list"
  mp_Autoscaling :: "(int \<times> int) option"
  mp_Replicas :: "int option"
  mp_SpotMarketOptions :: "float64 option option"
  mp_AdditionalSecurityGroupIds :: "string list option"
  mp_Tags :: "(string \<times> string) list option"
  mp_AvailabilityZones :: "string list option"
  mp_Subnets :: "string list option"
  mp_RootVolumeSize :: "int option"

text \<open>
  How a run ends apart from returning a value: the function returns an error, a helper
  terminates the process (\<open>os.Exit\<close>), or an index is out of range (a run-time panic).
\<close>

datatype failure = Fail error | Exit | Panic

datatype outcome = Returned "error option" | Exited | Panicked

fun outcome_of :: "failure \<Rightarrow> outcome" where
  "outcome_of (Fail e) = Returned (Some e)"
| "outcome_of Exit = Exited"
| "outcome_of Panic = Panicked"

text \<open>What a run of a creation function did: the create calls it sent, and how it ended.\<close>

record 'p run =
  create_calls :: "'p list"
  outcome :: outcome

definition bindE :: "failure + 'a \<Rightarrow> ('a \<Rightarrow> failure + 'b) \<Rightarrow> failure + 'b" where
  "bindE m f = (case m of Inl e \<Rightarrow> Inl e | Inr x \<Rightarrow> f x)"

text \<open>\<open>return fmt.Errorf(prefix + "%s", err)\<close> when a collaborator fails with message \<open>err\<close>.\<close>

definition wrapE :: "string \<Rightarrow> string + 'a \<Rightarrow> failure + 'a" where
  "wrapE prefix m = (case m of Inl err \<Rightarrow> Inl (Fail (Errorf (prefix @ err))) | Inr x \<Rightarrow> Inr x)"

definition quote :: "string \<Rightarrow> string" where
  "quote s = [CHR 0x27] @ s @ [CHR 0x27]"

text \<open>
  The collaborators of the creation functions, all defined outside \<open>machinepool.go\<close>: other packages of
  the repository (\<open>helper\<close>, \<open>versions\<close>, \<open>interactive\<close>, \<open>confirm\<close>, \<open>securitygroups\<close>,
  \<open>ocm\<close>, \<open>aws\<close>, \<open>output\<close>), the two helpers \<open>getSubnetFromUser\<close> and
  \<open>getSecurityGroupsOption\<close> of this package, and the Go library. Each is a parameter. A call
  that can fail gives \<open>Inl\<close> of the error's message; a prompt is a function of its default
  answer; a helper that reports an error by terminating the process gives \<open>None\<close> (or
  \<open>True\<close> for \<open>HostedClusterOnlyFlag\<close>) when it does so. The helpers that prompt in
  interactive mode take the mode as their last argument.
\<close>

record Collaborators =
  IsBYOVPC :: "Cluster \<Rightarrow> bool"
  MachinePoolSecurityGroupFlag :: string
  MinVersionForAdditionalComputeSecurityGroupIdsDay2 :: string
  IsGreaterThanOrEqual :: "string \<Rightarrow> string \<Rightarrow> string + bool"
  FormatMajorMinorPatch :: "string \<Rightarrow> string + string"
  MajorMinorPatchFormattedErrorOutput :: "string \<Rightarrow> string"
  HostedClusterOnlyFlag :: "string \<Rightarrow> bool"
  GetString_name :: "string \<Rightarrow> string + string"
  getSubnetFromUser :: "bool \<Rightarrow> bool \<Rightarrow> string + string"
  confirm_Yes :: bool
  GetBool_multiAZ :: "bool \<Rightarrow> string + bool"
  GetOption_availabilityZone :: "string list \<Rightarrow> string \<Rightarrow> string + string"
  GetBool_autoscaling :: "bool \<Rightarrow> string + bool"
  GetInt_minReplicas :: "int \<Rightarrow> string + int"
  GetInt_maxReplicas :: "int \<Rightarrow> string + int"
  GetInt_replicas :: "int \<Rightarrow> string + int"
  getSecurityGroupsOption :: "string + string list"
  TrimSpace :: "string \<Rightarrow> string"
  GetSubnetAvailabilityZone :: "string \<Rightarrow> string + string"
  GetAvailableMachineTypesInRegion :: "string \<Rightarrow> string list \<Rightarrow> string \<Rightarrow> string + string list"
  Errorf_format :: "string \<Rightarrow> string"
  GetAvailableIDs :: "string list \<Rightarrow> bool \<Rightarrow> string list"
  GetOption_instanceType :: "string list \<Rightarrow> string \<Rightarrow> string + string"
  ValidateMachineType :: "string list \<Rightarrow> string \<Rightarrow> bool \<Rightarrow> string option"
  GetLabelMap :: "string \<Rightarrow> bool \<Rightarrow> (string \<times> string) list option"
  GetTaints :: "string \<Rightarrow> bool \<Rightarrow> string list option"
  IsLocalAvailabilityZone :: "string \<Rightarrow> string + bool"
  GetBool_useSpot :: "bool \<Rightarrow> string + bool"
  GetString_spotMaxPrice :: "string \<Rightarrow> string + string"
  ParseFloat :: "string \<Rightarrow> int \<Rightarrow> float64 \<times> string option"
  MaxByteSize :: int
  GetAwsTags :: "string list \<Rightarrow> bool \<Rightarrow> (string \<times> string) list option"
  GetDefaultClusterFlavors :: "string \<Rightarrow> int"
  GigybyteStringer :: "int \<Rightarrow> string"
  GetString_rootDiskSize :: "string \<Rightarrow> string + string"
  ParseDiskSizeToGigibyte :: "string \<Rightarrow> string + int"
  ValidateMachinePoolRootDiskSize :: "string \<Rightarrow> int \<Rightarrow> string option"
  Build_error :: "MachinePool \<Rightarrow> string option"
  OCM_CreateMachinePool :: "string \<Rightarrow> MachinePool \<Rightarrow> string + MachinePool"
  output_HasFlag :: bool
  output_Print :: "MachinePool \<Rightarrow> string option"

text \<open>
  \<open>getMachinePoolAvailabilityZones\<close>: the pair of the zones and the error, as Go returns it.
\<close>

definition getMachinePoolAvailabilityZones ::
  "'z Collaborators_scheme \<Rightarrow> Cluster \<Rightarrow> bool \<Rightarrow> string \<Rightarrow> string \<Rightarrow> string list \<times> error option" where
  "getMachinePoolAvailabilityZones w cluster multiAZMachinePool availabilityZoneUserInput
       subnetUserInput =
     (if MultiAZ cluster \<and> \<not> multiAZMachinePool \<and> availabilityZoneUserInput \<noteq> ''''
      then ([availabilityZoneUserInput], None)
      else if subnetUserInput \<noteq> ''''
      then (case GetSubnetAvailabilityZone w subnetUserInput of
              Inl err \<Rightarrow> ([], Some (Errorf err))
            | Inr availabilityZone \<Rightarrow> ([availabilityZone], None))
      else (AvailabilityZones cluster, None))"

section \<open>CreateMachinePool\<close>

text \<open>
  \<open>CreateMachinePool\<close> is one function of about 500 lines; the model follows it in its own
  order, one definition for each block of the source. \<open>Changed f\<close> is
  \<open>cmd.Flags().Changed(f)\<close>, \<open>ia\<close> is \<open>interactive.Enabled()\<close>, a global of the program
  that the function reads and may set. The spinner and the \<open>Infof\<close> lines only print, and are
  left out. The runtime is taken to be initialised (its reporter and its clients are not nil)
  and the flags that the prompts look up for their help texts to be registered on the command,
  as \<open>BuildMachinePoolCreateCommandWithOptions\<close> and the runner provide them.
\<close>

text \<open>Lines 86 to 143: the checks on the flags. The result is \<open>isVersionCompatibleComputeSgIds\<close>.\<close>

definition CreateMachinePool_flags ::
  "'z Collaborators_scheme \<Rightarrow> (string \<Rightarrow> bool) \<Rightarrow> Cluster \<Rightarrow> CreateMachinepoolUserOptions
     \<Rightarrow> failure + bool" where
  "CreateMachinePool_flags w Changed cluster args =
     (let isMultiAvailabilityZoneSet = Changed ''multi-availability-zone'';
          isAvailabilityZoneSet = Changed ''availability-zone'';
          isSubnetSet = Changed ''subnet'';
          isByoVpc = IsBYOVPC w cluster;
          isSecurityGroupIdsSet = Changed (MachinePoolSecurityGroupFlag w)
      in
      if isMultiAvailabilityZoneSet \<and> \<not> MultiAZ cluster
      then Inl (Fail (Errorf
        ''Setting the `multi-availability-zone` flag is only allowed for multi-AZ clusters''))
      else if isAvailabilityZoneSet \<and> \<not> MultiAZ cluster
      then Inl (Fail (Errorf
        ''Setting the `availability-zone` flag is only allowed for multi-AZ clusters''))
      else if \<not> isByoVpc \<and> isSubnetSet
      then Inl (Fail (Errorf ''Setting the `subnet` flag is only allowed for BYO VPC clusters''))
      else
       (case IsGreaterThanOrEqual w (VersionRawID cluster)
               (MinVersionForAdditionalComputeSecurityGroupIdsDay2 w) of
          Inl err \<Rightarrow>
            Inl (Fail (Errorf (''There was a problem checking version compatibility: '' @ err)))
        | Inr isVersionCompatibleComputeSgIds \<Rightarrow>
            if isSecurityGroupIdsSet \<and> \<not> isByoVpc
            then Inl (Fail (Errorf (''Setting the `'' @ MachinePoolSecurityGroupFlag w
                   @ ''` flag is only allowed for BYOVPC clusters'')))
            else if isSecurityGroupIdsSet \<and> \<not> isVersionCompatibleComputeSgIds
            then (case FormatMajorMinorPatch w
                         (MinVersionForAdditionalComputeSecurityGroupIdsDay2 w) of
                    Inl err \<Rightarrow> Inl (Fail (Errorf (MajorMinorPatchFormattedErrorOutput w err)))
                  | Inr formattedVersion \<Rightarrow>
                      Inl (Fail (Errorf (''Parameter '' @ quote (MachinePoolSecurityGroupFlag w)
                        @ '' is not supported prior to version '' @ quote formattedVersion))))
            else if isSubnetSet \<and> isAvailabilityZoneSet
            then Inl (Fail (Errorf (''Setting both `subnet` and `availability-zone` flag is not supported.''
                   @ '' Please select `subnet` or `availability-zone` to create a single availability zone machine pool'')))
            else if isAvailabilityZoneSet \<and> isMultiAvailabilityZoneSet \<and> MultiAvailabilityZone args
            then Inl (Fail (Errorf (''Setting the `availability-zone` flag is only supported for creating a single AZ ''
                   @ ''machine pool in a multi-AZ cluster'')))
            else if isSubnetSet \<and> isMultiAvailabilityZoneSet \<and> MultiAvailabilityZone args
            then Inl (Fail (Errorf
              ''Setting the `subnet` flag is only supported for creating a single AZ machine pool''))
            else if HostedClusterOnlyFlag w ''version'' then Inl Exit
            else if HostedClusterOnlyFlag w ''autorepair'' then Inl Exit
            else if HostedClusterOnlyFlag w ''tuning-configs'' then Inl Exit
            else if HostedClusterOnlyFlag w ''kubelet-configs'' then Inl Exit
            else Inr isVersionCompatibleComputeSgIds))"

text \<open>
  Lines 145 to 167, and 663 to 685 of \<open>CreateNodePools\<close>: the name. The result is the
  interactive mode after the block and the name.
\<close>

definition machinePoolName ::
  "'z Collaborators_scheme \<Rightarrow> CreateMachinepoolUserOptions \<Rightarrow> bool \<Rightarrow> failure + (bool \<times> string)" where
  "machinePoolName w args ia =
     (let name = Trim (Name args) [CHR '' '', CHR 0x09];
          ia' = (if name = '''' \<and> \<not> ia then True else ia)
      in
      bindE (if name = '''' \<or> ia'
             then wrapE ''Expected a valid name for the machine pool: '' (GetString_name w name)
             else Inr name)
        (\<lambda>name.
           let name = Trim name [CHR '' '', CHR 0x09] in
           if \<not> MatchString machinePoolKeyRE name
           then Inl (Fail (Errorf ''Expected a valid name for the machine pool''))
           else Inr (ia', name)))"

text \<open>
  Lines 169 to 235: the placement. The result is \<open>multiAZMachinePool\<close>,
  \<open>availabilityZone\<close> and \<open>subnet\<close>. Line 185 writes \<open>false\<close> to
  \<open>args.MultiAvailabilityZone\<close>, which only line 199 reads afterwards.
\<close>

definition CreateMachinePool_placement ::
  "'z Collaborators_scheme \<Rightarrow> (string \<Rightarrow> bool) \<Rightarrow> Cluster \<Rightarrow> CreateMachinepoolUserOptions \<Rightarrow> bool
     \<Rightarrow> failure + (bool \<times> string \<times> string)" where
  "CreateMachinePool_placement w Changed cluster args ia =
     (let isAvailabilityZoneSet = Changed ''availability-zone'';
          isSubnetSet = Changed ''subnet'';
          isByoVpc = IsBYOVPC w cluster
      in
      bindE (if \<not> MultiAZ cluster \<and> isByoVpc
             then wrapE '''' (getSubnetFromUser w isSubnetSet ia) else Inr '''')
        (\<lambda>subnet.
           if \<not> MultiAZ cluster then Inr (False, '''', subnet)
           else
             let isMultiAvailabilityZoneSet =
                   (if isAvailabilityZoneSet \<or> isSubnetSet then True
                    else Changed ''multi-availability-zone'');
                 argsMultiAvailabilityZone =
                   (if isAvailabilityZoneSet \<or> isSubnetSet then False
                    else MultiAvailabilityZone args)
             in
             bindE (if \<not> isMultiAvailabilityZoneSet \<and> ia \<and> \<not> confirm_Yes w
                    then (case GetBool_multiAZ w True of
                            Inl err \<Rightarrow> Inl (Fail (Errorf
                              ''Expected a valid value for create multi-AZ machine pool''))
                          | Inr b \<Rightarrow> Inr b)
                    else Inr argsMultiAvailabilityZone)
               (\<lambda>multiAZMachinePool.
                  if multiAZMachinePool then Inr (True, '''', subnet)
                  else
                    bindE (if isByoVpc \<and> AvailabilityZone args = ''''
                           then wrapE '''' (getSubnetFromUser w isSubnetSet ia) else Inr subnet)
                      (\<lambda>subnet.
                         if subnet \<noteq> '''' then Inr (False, '''', subnet)
                         else
                           (case AvailabilityZones cluster of
                              [] \<Rightarrow> Inl Panic
                            | first # _ \<Rightarrow>
                                bindE (if \<not> isAvailabilityZoneSet \<and> ia
                                       then wrapE ''Expected a valid AWS availability zone: ''
                                              (GetOption_availabilityZone w
                                                 (AvailabilityZones cluster) first)
                                       else if isAvailabilityZoneSet
                                       then Inr (AvailabilityZone args)
                                       else Inr first)
                                  (\<lambda>availabilityZone.
                                     if \<not> Contains (AvailabilityZones cluster) availabilityZone
                                     then Inl (Fail (Errorf (''Availability zone ''
                                            @ quote availabilityZone
                                            @ '' doesn't belong to the cluster's availability zones'')))
                                     else Inr (False, availabilityZone, subnet)))))))"

text \<open>
  Lines 237 to 325: autoscaling and replicas. The result is \<open>autoscaling\<close>,
  \<open>minReplicas\<close>, \<open>maxReplicas\<close> and \<open>replicas\<close>.
\<close>

definition validated :: "error option \<Rightarrow> 'a \<Rightarrow> failure + 'a" where
  "validated err x = (case err of Some e \<Rightarrow> Inl (Fail e) | None \<Rightarrow> Inr x)"

definition CreateMachinePool_scaling ::
  "'z Collaborators_scheme \<Rightarrow> (string \<Rightarrow> bool) \<Rightarrow> CreateMachinepoolUserOptions \<Rightarrow> bool \<Rightarrow> bool
     \<Rightarrow> failure + (bool \<times> int \<times> int \<times> int)" where
  "CreateMachinePool_scaling w Changed args ia multiAZMachinePool =
     (let isMinReplicasSet = Changed ''min-replicas'';
          isMaxReplicasSet = Changed ''max-replicas'';
          isAutoscalingSet = Changed ''enable-autoscaling'';
          isReplicasSet = Changed ''replicas''
      in
      bindE (if \<not> isReplicasSet \<and> \<not> AutoscalingEnabled args \<and> \<not> isAutoscalingSet \<and> ia
             then wrapE ''Expected a valid value for enable-autoscaling: ''
                    (GetBool_autoscaling w (AutoscalingEnabled args))
             else Inr (AutoscalingEnabled args))
        (\<lambda>autoscaling.
           if autoscaling then
             if isReplicasSet
             then Inl (Fail (Errorf ''Replicas can't be set when autoscaling is enabled''))
             else
               bindE (if ia \<or> \<not> isMinReplicasSet
                      then wrapE ''Expected a valid number of min replicas: ''
                             (GetInt_minReplicas w (MinReplicas args))
                      else Inr (MinReplicas args))
                 (\<lambda>minReplicas.
                    bindE (validated (minReplicaValidator multiAZMachinePool (IntVal minReplicas)) ())
                      (\<lambda>_.
                         bindE (if ia \<or> \<not> isMaxReplicasSet
                                then wrapE ''Expected a valid number of max replicas: ''
                                       (GetInt_maxReplicas w (MaxReplicas args))
                                else Inr (MaxReplicas args))
                           (\<lambda>maxReplicas.
                              validated
                                (maxReplicaValidator minReplicas multiAZMachinePool (IntVal maxReplicas))
                                (True, minReplicas, maxReplicas, Replicas args))))
           else
             if isMinReplicasSet \<or> isMaxReplicasSet
             then Inl (Fail (Errorf
               ''Autoscaling must be enabled in order to set min and max replicas''))
             else
               bindE (if ia \<or> \<not> isReplicasSet
                      then wrapE ''Expected a valid number of replicas: ''
                             (GetInt_replicas w (Replicas args))
                      else Inr (Replicas args))
                 (\<lambda>replicas.
                    validated (minReplicaValidator multiAZMachinePool (IntVal replicas))
                      (False, MinReplicas args, MaxReplicas args, replicas))))"

text \<open>Lines 327 to 337: the security groups, each trimmed.\<close>

definition CreateMachinePool_securityGroupIds ::
  "'z Collaborators_scheme \<Rightarrow> (string \<Rightarrow> bool) \<Rightarrow> Cluster \<Rightarrow> CreateMachinepoolUserOptions \<Rightarrow> bool
     \<Rightarrow> bool \<Rightarrow> failure + string list" where
  "CreateMachinePool_securityGroupIds w Changed cluster args ia isVersionCompatibleComputeSgIds =
     bindE (if ia \<and> isVersionCompatibleComputeSgIds \<and> IsBYOVPC w cluster
               \<and> \<not> Changed (MachinePoolSecurityGroupFlag w)
            then wrapE '''' (getSecurityGroupsOption w)
            else Inr (SecurityGroupIds args))
       (\<lambda>securityGroupIds. Inr (map (TrimSpace w) securityGroupIds))"

text \<open>
  Lines 339 to 394: the instance type. The result is \<open>availabilityZonesFilter\<close> and
  \<open>instanceType\<close>. \<open>instanceTypeList.Items[0]\<close> panics on an empty list.
\<close>

definition CreateMachinePool_instanceType ::
  "'z Collaborators_scheme \<Rightarrow> Cluster \<Rightarrow> CreateMachinepoolUserOptions \<Rightarrow> bool
     \<Rightarrow> bool \<Rightarrow> string \<Rightarrow> string \<Rightarrow> failure + (string list \<times> string)" where
  "CreateMachinePool_instanceType w cluster args ia multiAZMachinePool availabilityZone subnet =
     (if InstanceType args = '''' \<and> \<not> ia
      then Inl (Fail (Errorf ''You must supply a valid instance type''))
      else
        (case getMachinePoolAvailabilityZones w cluster multiAZMachinePool availabilityZone subnet of
           (_, Some err) \<Rightarrow> Inl (Fail err)
         | (availabilityZonesFilter, None) \<Rightarrow>
             (case GetAvailableMachineTypesInRegion w (RegionID cluster) availabilityZonesFilter
                     (RoleARN cluster) of
                Inl err \<Rightarrow> Inl (Fail (Errorf (Errorf_format w err)))
              | Inr instanceTypeList \<Rightarrow>
                  bindE (if ia then
                           bindE (if InstanceType args = ''''
                                  then (case instanceTypeList of
                                          [] \<Rightarrow> Inl Panic
                                        | first # _ \<Rightarrow> Inr first)
                                  else Inr (InstanceType args))
                             (\<lambda>instanceType.
                                wrapE ''Expected a valid instance type: ''
                                  (GetOption_instanceType w
                                     (GetAvailableIDs w instanceTypeList (MultiAZ cluster))
                                     instanceType))
                         else Inr (InstanceType args))
                    (\<lambda>instanceType.
                       (case ValidateMachineType w instanceTypeList instanceType (MultiAZ cluster) of
                          Some err \<Rightarrow>
                            Inl (Fail (Errorf (''Expected a valid instance type: '' @ err)))
                        | None \<Rightarrow> Inr (availabilityZonesFilter, instanceType))))))"

text \<open>
  Lines 402 to 460: spot instances. The result is \<open>useSpotInstances\<close>, \<open>spotMaxPrice\<close>
  and \<open>maxPrice\<close> (\<open>None\<close> is the nil pointer). Line 458 drops the error of
  \<open>ParseFloat\<close> and keeps its value.
\<close>

definition CreateMachinePool_spot ::
  "'z Collaborators_scheme \<Rightarrow> (string \<Rightarrow> bool) \<Rightarrow> CreateMachinepoolUserOptions \<Rightarrow> bool
     \<Rightarrow> string \<Rightarrow> string list \<Rightarrow> failure + (bool \<times> string \<times> float64 option)" where
  "CreateMachinePool_spot w Changed args ia subnet availabilityZonesFilter =
     (let isSpotSet = Changed ''use-spot-instances'';
          isSpotMaxPriceSet = Changed ''spot-max-price''
      in
      if isSpotMaxPriceSet \<and> isSpotSet \<and> \<not> UseSpotInstances args
      then Inl (Fail (Errorf ''Can't set max price when not using spot instances''))
      else
        bindE (if subnet \<noteq> ''''
               then (case availabilityZonesFilter of
                       [] \<Rightarrow> Inl Panic
                     | first # _ \<Rightarrow> wrapE '''' (IsLocalAvailabilityZone w first))
               else Inr False)
          (\<lambda>isLocalZone.
             if isLocalZone \<and> UseSpotInstances args
             then Inl (Fail (Errorf ''Spot instances are not supported for local zones''))
             else
               bindE (if \<not> isSpotSet \<and> \<not> isSpotMaxPriceSet \<and> \<not> isLocalZone \<and> ia
                      then wrapE ''Expected a valid value for use spot instances: ''
                             (GetBool_useSpot w (UseSpotInstances args))
                      else Inr (UseSpotInstances args))
                 (\<lambda>useSpotInstances.
                    bindE (if useSpotInstances \<and> \<not> isSpotMaxPriceSet \<and> ia
                           then wrapE ''Expected a valid value for spot max price: ''
                                  (GetString_spotMaxPrice w (SpotMaxPrice args))
                           else Inr (SpotMaxPrice args))
                      (\<lambda>spotMaxPrice.
                         bindE (validated
                                  (spotMaxPriceValidator (ParseFloat w) (MaxByteSize w)
                                     (StrVal spotMaxPrice)) ())
                           (\<lambda>_. Inr (useSpotInstances, spotMaxPrice,
                                  (if spotMaxPrice \<noteq> ''on-demand''
                                   then Some (fst (ParseFloat w spotMaxPrice (MaxByteSize w)))
                                   else None)))))))"

text \<open>
  Lines 505 to 552: the root disk size. The result is the size given to the builder, if any.
\<close>

definition CreateMachinePool_rootDiskSize ::
  "'z Collaborators_scheme \<Rightarrow> Cluster \<Rightarrow> CreateMachinepoolUserOptions \<Rightarrow> bool
     \<Rightarrow> failure + int option" where
  "CreateMachinePool_rootDiskSize w cluster args ia =
     (let defaultRootDiskSize = GetDefaultClusterFlavors w (FlavourID cluster) in
      if RootDiskSize args \<noteq> '''' \<or> ia then
        (let rootDiskSizeStr =
               (if RootDiskSize args = '''' then GigybyteStringer w defaultRootDiskSize
                else RootDiskSize args)
         in
         bindE (if ia
                then wrapE ''Expected a valid machine pool root disk size value: ''
                       (GetString_rootDiskSize w rootDiskSizeStr)
                else Inr rootDiskSizeStr)
           (\<lambda>rootDiskSizeStr.
              bindE (wrapE (''Expected a valid machine pool root disk size value ''
                       @ quote rootDiskSizeStr @ '': '')
                       (ParseDiskSizeToGigibyte w rootDiskSizeStr))
                (\<lambda>rootDiskSize.
                   (case ValidateMachinePoolRootDiskSize w (VersionRawID cluster) rootDiskSize of
                      Some err \<Rightarrow> Inl (Fail (Errorf err))
                    | None \<Rightarrow>
                        Inr (if rootDiskSize \<noteq> defaultRootDiskSize then Some rootDiskSize
                             else None)))))
      else Inr None)"

definition orExit :: "'a option \<Rightarrow> failure + 'a" where
  "orExit m = (case m of None \<Rightarrow> Inl Exit | Some x \<Rightarrow> Inr x)"

text \<open>
  Lines 83 to 557: everything before the create call. The result is the machine pool that
  \<open>mpBuilder.Build()\<close> returns.
\<close>

definition CreateMachinePool_request ::
  "'z Collaborators_scheme \<Rightarrow> (string \<Rightarrow> bool) \<Rightarrow> string \<Rightarrow> Cluster \<Rightarrow> CreateMachinepoolUserOptions
     \<Rightarrow> bool \<Rightarrow> failure + MachinePool" where
  "CreateMachinePool_request w Changed clusterKey cluster args ia0 =
     bindE (CreateMachinePool_flags w Changed cluster args)
       (\<lambda>isVersionCompatibleComputeSgIds.
     bindE (machinePoolName w args ia0)
       (\<lambda>(ia, name).
     bindE (CreateMachinePool_placement w Changed cluster args ia)
       (\<lambda>(multiAZMachinePool, availabilityZone, subnet).
     bindE (CreateMachinePool_scaling w Changed args ia multiAZMachinePool)
       (\<lambda>(autoscaling, minReplicas, maxReplicas, replicas).
     bindE (CreateMachinePool_securityGroupIds w Changed cluster args ia
              isVersionCompatibleComputeSgIds)
       (\<lambda>securityGroupIds.
     bindE (CreateMachinePool_instanceType w cluster args ia multiAZMachinePool availabilityZone
              subnet)
       (\<lambda>(availabilityZonesFilter, instanceType).
     bindE (orExit (GetLabelMap w (Labels args) ia))
       (\<lambda>labelMap.
     bindE (orExit (GetTaints w (Taints args) ia))
       (\<lambda>taintBuilders.
     bindE (CreateMachinePool_spot w Changed args ia subnet availabilityZonesFilter)
       (\<lambda>(useSpotInstances, spotMaxPrice, maxPrice).
     bindE (orExit (GetAwsTags w (Tags args) ia))
       (\<lambda>awsTags.
     bindE (CreateMachinePool_rootDiskSize w cluster args ia)
       (\<lambda>rootVolume.
          let machinePool =
            \<lparr> mp_ID = name,
              mp_InstanceType = instanceType,
              mp_Labels = labelMap,
              mp_Taints = taintBuilders,
              mp_Autoscaling = (if autoscaling then Some (minReplicas, maxReplicas) else None),
              mp_Replicas = (if autoscaling then None else Some replicas),
              mp_SpotMarketOptions = (if useSpotInstances then Some maxPrice else None),
              mp_AdditionalSecurityGroupIds =
                (if length securityGroupIds > 0 then Some securityGroupIds else None),
              mp_Tags = (if length awsTags > 0 then Some awsTags else None),
              mp_AvailabilityZones =
                (if MultiAZ cluster \<and> \<not> multiAZMachinePool \<and> availabilityZone \<noteq> ''''
                 then Some [availabilityZone] else None),
              mp_Subnets = (if subnet \<noteq> '''' then Some [subnet] else None),
              mp_RootVolumeSize = rootVolume \<rparr>
          in
          (case Build_error w machinePool of
             Some err \<Rightarrow>
               Inl (Fail (Errorf (''Failed to create machine pool for cluster ''
                      @ quote clusterKey @ '': '' @ err)))
           | None \<Rightarrow> Inr machinePool))))))))))))"

text \<open>
  \<open>CreateMachinePool\<close>: lines 559 to 575 send the create call, the only call of the function
  that changes the cluster, and print the result.
\<close>

definition CreateMachinePool ::
  "'z Collaborators_scheme \<Rightarrow> (string \<Rightarrow> bool) \<Rightarrow> string \<Rightarrow> Cluster \<Rightarrow> CreateMachinepoolUserOptions
     \<Rightarrow> bool \<Rightarrow> MachinePool run" where
  "CreateMachinePool w Changed clusterKey cluster args ia0 =
     (case CreateMachinePool_request w Changed clusterKey cluster args ia0 of
        Inl f \<Rightarrow> \<lparr> create_calls = [], outcome = outcome_of f \<rparr>
      | Inr machinePool \<Rightarrow>
          \<lparr> create_calls = [machinePool],
            outcome =
              (case OCM_CreateMachinePool w (ClusterID cluster) machinePool of
                 Inl err \<Rightarrow>
                   Returned (Some (Errorf (''Failed to add machine pool to cluster ''
                     @ quote clusterKey @ '': '' @ err)))
               | Inr createdMachinePool \<Rightarrow>
                   if output_HasFlag w then
                     (case output_Print w createdMachinePool of
                        Some err \<Rightarrow>
                          Returned (Some (Errorf (''Unable to print machine pool: '' @ err)))
                      | None \<Rightarrow> Returned None)
                   else Returned None) \<rparr>)"

section \<open>CreateNodePools\<close>

text \<open>
  The further collaborators of \<open>CreateNodePools\<close>. A subnet of \<open>GetVPCPrivateSubnets\<close> is
  the pair of its \<open>SubnetId\<close> and its \<open>AvailabilityZone\<close>, both pointers in the source
  (\<open>None\<close> is nil). \<open>range_order\<close> is the order in which Go ranges over the keys of a map,
  which the language leaves open. \<open>getSubnetFromUser_again\<close> is the call of
  \<open>getSubnetFromUser\<close> at line 1141, after the one at line 737: the user may answer it
  differently. \<open>CreateNodePools_rest\<close> stands for lines 841 to 1091
  (labels, taints, security groups, instance type, autorepair, tuning and kubelet configs, drain
  period, the create call and the printing): it is given what lines 655 to 839 resolved, that
  is the interactive mode, the name, the version, the subnet, and \<open>autoscaling\<close>,
  \<open>minReplicas\<close>, \<open>maxReplicas\<close> and \<open>replicas\<close>.
\<close>

record 'np NodePoolCollaborators = Collaborators +
  GetVersionList :: "string \<Rightarrow> string + string list"
  GetMinimalHostedMachinePoolVersion :: "string \<Rightarrow> string + string"
  GetFilteredVersionList :: "string list \<Rightarrow> string \<Rightarrow> string \<Rightarrow> string list"
  GetOption_version :: "string list \<Rightarrow> string \<Rightarrow> string + string"
  ValidateVersion :: "string \<Rightarrow> string list \<Rightarrow> string \<Rightarrow> string + string"
  GetVPCPrivateSubnets :: "string \<Rightarrow> string + (string option \<times> string option) list"
  getSubnetFromUser_again :: "bool \<Rightarrow> bool \<Rightarrow> string + string"
  range_order :: "string list \<Rightarrow> string list"
  MinNodePoolReplicaValidator :: "bool \<Rightarrow> val \<Rightarrow> error option"
  MaxNodePoolReplicaValidator :: "int \<Rightarrow> val \<Rightarrow> error option"
  CreateNodePools_rest ::
    "bool \<Rightarrow> string \<Rightarrow> string \<Rightarrow> string \<Rightarrow> bool \<times> int \<times> int \<times> int \<Rightarrow> 'np run"

text \<open>
  The loop of \<open>getSubnetFromAvailabilityZone\<close> that fills \<open>subnetsMap\<close>; the map is an
  association list in the order of the first occurrence of each zone.
\<close>

fun subnetsPerZone ::
  "(string option \<times> string option) list \<Rightarrow> (string \<times> string list) list
     \<Rightarrow> failure + (string \<times> string list) list" where
  "subnetsPerZone [] subnetsMap = Inr subnetsMap"
| "subnetsPerZone ((subnetId, zone) # privateSubnets) subnetsMap =
     (case zone of
        None \<Rightarrow> Inl Panic
      | Some availabilityZone \<Rightarrow>
          (case subnetId of
             None \<Rightarrow> Inl Panic
           | Some subnet \<Rightarrow>
               (case map_of subnetsMap availabilityZone of
                  None \<Rightarrow>
                    subnetsPerZone privateSubnets (subnetsMap @ [(availabilityZone, [subnet])])
                | Some subnetsPerAZ \<Rightarrow>
                    subnetsPerZone privateSubnets
                      (AList.update availabilityZone (subnetsPerAZ @ [subnet]) subnetsMap))))"

text \<open>\<open>getSubnetFromAvailabilityZone\<close>. The result is the interactive mode and the subnet.\<close>

definition getSubnetFromAvailabilityZone ::
  "('np, 'z) NodePoolCollaborators_scheme \<Rightarrow> bool \<Rightarrow> Cluster \<Rightarrow> CreateMachinepoolUserOptions
     \<Rightarrow> bool \<Rightarrow> failure + (bool \<times> string)" where
  "getSubnetFromAvailabilityZone w isAvailabilityZoneSet cluster args ia =
     (case SubnetIDs cluster of
        [] \<Rightarrow> Inl Panic
      | firstSubnet # _ \<Rightarrow>
          bindE (wrapE '''' (GetVPCPrivateSubnets w firstSubnet))
            (\<lambda>privateSubnets.
          bindE (subnetsPerZone privateSubnets [])
            (\<lambda>subnetsMap.
               let availabilityZones = range_order w (map fst subnetsMap) in
               (case AvailabilityZones cluster of
                  [] \<Rightarrow> Inl Panic
                | first # _ \<Rightarrow>
                    bindE (if \<not> isAvailabilityZoneSet \<and> ia
                           then wrapE ''Expected a valid AWS availability zone: ''
                                  (GetOption_availabilityZone w availabilityZones first)
                           else if isAvailabilityZoneSet then Inr (AvailabilityZone args)
                           else Inr first)
                      (\<lambda>availabilityZone.
                         (case map_of subnetsMap availabilityZone of
                            Some subnets \<Rightarrow>
                              (case subnets of
                                 [subnet] \<Rightarrow> Inr (ia, subnet)
                               | _ \<Rightarrow>
                                   bindE (wrapE '''' (getSubnetFromUser_again w False True))
                                     (\<lambda>subnet. Inr (True, subnet)))
                          | None \<Rightarrow>
                              Inl (Fail (Errorf (''Failed to find a private subnet for ''
                                @ quote availabilityZone @ '' availability zone'')))))))))"

text \<open>Lines 687 to 734: the OpenShift version.\<close>

definition CreateNodePools_version ::
  "('np, 'z) NodePoolCollaborators_scheme \<Rightarrow> (string \<Rightarrow> bool) \<Rightarrow> Cluster
     \<Rightarrow> CreateMachinepoolUserOptions \<Rightarrow> bool \<Rightarrow> failure + string" where
  "CreateNodePools_version w Changed cluster args ia =
     (if Changed ''version'' \<or> ia then
        (let channelGroup = VersionChannelGroup cluster;
             clusterVersion = VersionRawID cluster
         in
         bindE (wrapE '''' (GetVersionList w channelGroup))
           (\<lambda>versionList.
         bindE (wrapE '''' (GetMinimalHostedMachinePoolVersion w clusterVersion))
           (\<lambda>minVersion.
              let filteredVersionList =
                    GetFilteredVersionList w versionList minVersion clusterVersion;
                  version = (if Version args = '''' then clusterVersion else Version args)
              in
              bindE (if ia
                     then wrapE ''Expected a valid OpenShift version: ''
                            (GetOption_version w filteredVersionList version)
                     else Inr version)
                (\<lambda>version.
                   wrapE ''Expected a valid OpenShift version: ''
                     (ValidateVersion w version filteredVersionList channelGroup)))))
      else Inr (Version args))"

text \<open>Lines 750 to 839: autoscaling and replicas, with the validators of the node pools.\<close>

definition CreateNodePools_scaling ::
  "('np, 'z) NodePoolCollaborators_scheme \<Rightarrow> (string \<Rightarrow> bool) \<Rightarrow> CreateMachinepoolUserOptions
     \<Rightarrow> bool \<Rightarrow> failure + (bool \<times> int \<times> int \<times> int)" where
  "CreateNodePools_scaling w Changed args ia =
     (let isMinReplicasSet = Changed ''min-replicas'';
          isMaxReplicasSet = Changed ''max-replicas'';
          isAutoscalingSet = Changed ''enable-autoscaling'';
          isReplicasSet = Changed ''replicas''
      in
      bindE (if \<not> isReplicasSet \<and> \<not> AutoscalingEnabled args \<and> \<not> isAutoscalingSet \<and> ia
             then wrapE ''Expected a valid value for enable-autoscaling: ''
                    (GetBool_autoscaling w (AutoscalingEnabled args))
             else Inr (AutoscalingEnabled args))
        (\<lambda>autoscaling.
           if autoscaling then
             if isReplicasSet
             then Inl (Fail (Errorf ''Replicas can't be set when autoscaling is enabled''))
             else
               bindE (if ia \<or> \<not> isMinReplicasSet
                      then wrapE ''Expected a valid number of min replicas: ''
                             (GetInt_minReplicas w (MinReplicas args))
                      else Inr (MinReplicas args))
                 (\<lambda>minReplicas.
                    bindE (validated (MinNodePoolReplicaValidator w True (IntVal minReplicas)) ())
                      (\<lambda>_.
                         bindE (if ia \<or> \<not> isMaxReplicasSet
                                then wrapE ''Expected a valid number of max replicas: ''
                                       (GetInt_maxReplicas w (MaxReplicas args))
                                else Inr (MaxReplicas args))
                           (\<lambda>maxReplicas.
                              validated
                                (MaxNodePoolReplicaValidator w minReplicas (IntVal maxReplicas))
                                (True, minReplicas, maxReplicas, Replicas args))))
           else
             if isMinReplicasSet \<or> isMaxReplicasSet
             then Inl (Fail (Errorf
               ''Autoscaling must be enabled in order to set min and max replicas''))
             else
               bindE (if ia \<or> \<not> isReplicasSet
                      then wrapE ''Expected a valid number of replicas: ''
                             (GetInt_replicas w (Replicas args))
                      else Inr (Replicas args))
                 (\<lambda>replicas.
                    validated (MinNodePoolReplicaValidator w False (IntVal replicas))
                      (False, MinReplicas args, MaxReplicas args, replicas))))"

text \<open>
  Lines 655 to 748: the check of the two flags, the name, the version and the subnet. The
  result is the interactive mode, the name, the version and the subnet.
\<close>

definition CreateNodePools_placement ::
  "('np, 'z) NodePoolCollaborators_scheme \<Rightarrow> (string \<Rightarrow> bool) \<Rightarrow> Cluster
     \<Rightarrow> CreateMachinepoolUserOptions \<Rightarrow> bool
     \<Rightarrow> failure + (bool \<times> string \<times> string \<times> string)" where
  "CreateNodePools_placement w Changed cluster args ia0 =
     (let isAvailabilityZoneSet = Changed ''availability-zone'';
          isSubnetSet = Changed ''subnet''
      in
      if isSubnetSet \<and> isAvailabilityZoneSet
      then Inl (Fail (Errorf (''Setting both `subnet` and `availability-zone` flag is not supported.''
             @ '' Please select `subnet` or `availability-zone` to create a single availability zone machine pool'')))
      else
        bindE (machinePoolName w args ia0)
          (\<lambda>(ia, name).
        bindE (CreateNodePools_version w Changed cluster args ia)
          (\<lambda>version.
        bindE (wrapE '''' (getSubnetFromUser w isSubnetSet ia))
          (\<lambda>subnet.
        bindE (if subnet = ''''
               then getSubnetFromAvailabilityZone w isAvailabilityZoneSet cluster args ia
               else Inr (ia, subnet))
          (\<lambda>(ia, subnet). Inr (ia, name, version, subnet))))))"

text \<open>\<open>CreateNodePools\<close>: lines 655 to 748, lines 750 to 839, then the rest.\<close>

definition CreateNodePools ::
  "('np, 'z) NodePoolCollaborators_scheme \<Rightarrow> (string \<Rightarrow> bool) \<Rightarrow> Cluster
     \<Rightarrow> CreateMachinepoolUserOptions \<Rightarrow> bool \<Rightarrow> 'np run" where
  "CreateNodePools w Changed cluster args ia0 =
     (case CreateNodePools_placement w Changed cluster args ia0 of
        Inl f \<Rightarrow> \<lparr> create_calls = [], outcome = outcome_of f \<rparr>
      | Inr (ia, name, version, subnet) \<Rightarrow>
          (case CreateNodePools_scaling w Changed args ia of
             Inl f \<Rightarrow> \<lparr> create_calls = [], outcome = outcome_of f \<rparr>
           | Inr scaling \<Rightarrow> CreateNodePools_rest w ia name version subnet scaling))"

section \<open>A cluster, options and collaborators to run the functions on\<close>

text \<open>
  The cluster of the test of \<open>getMachinePoolAvailabilityZones\<close> in
  \<open>machinepool_test.go\<close> (multi-AZ, zones \<open>us-east-1a\<close> and \<open>us-east-1b\<close>) with the two
  subnets of the other tests, and the same cluster with one zone and no subnet.
\<close>

definition exampleCluster :: Cluster where
  "exampleCluster =
     \<lparr> ClusterID = ''test'', MultiAZ = True,
       AvailabilityZones = [''us-east-1a'', ''us-east-1b''],
       VersionRawID = ''4.14.0'', VersionChannelGroup = ''stable'', RegionID = ''us-east-1'',
       RoleARN = '''', FlavourID = ''osd-4'',
       SubnetIDs = [''subnet-0b761d44d3d9a4663'', ''subnet-0f87f640e56934cbc''] \<rparr>"

definition singleAZCluster :: Cluster where
  "singleAZCluster =
     exampleCluster \<lparr> MultiAZ := False, AvailabilityZones := [''us-east-1a''], SubnetIDs := [] \<rparr>"

text \<open>
  The options of \<open>NewCreateMachinepoolUserOptions\<close> with a name, three replicas and the
  spot max price \<open>on-demand\<close>.
\<close>

definition exampleOptions :: CreateMachinepoolUserOptions where
  "exampleOptions =
     \<lparr> Name = ''machinepool1'', InstanceType = ''m5.xlarge'', Replicas = 3,
       AutoscalingEnabled = False, MinReplicas = 0, MaxReplicas = 0, Labels = '''', Taints = '''',
       UseSpotInstances = False, SpotMaxPrice = ''on-demand'', MultiAvailabilityZone = True,
       AvailabilityZone = '''', Subnet = '''', Version = '''', Autorepair = True,
       TuningConfigs = '''', KubeletConfigs = '''', RootDiskSize = '''', SecurityGroupIds = [],
       NodeDrainGracePeriod = '''', Tags = [] \<rparr>"

text \<open>
  Collaborators for a session without a terminal: every prompt fails, every service call
  succeeds, a cluster is BYO-VPC when it has subnets, and \<open>ParseFloat\<close> knows four strings.
\<close>

definition exampleCollaborators :: "unit NodePoolCollaborators" where
  "exampleCollaborators =
     \<lparr> IsBYOVPC = (\<lambda>cluster. SubnetIDs cluster \<noteq> []),
       MachinePoolSecurityGroupFlag = ''additional-security-group-ids'',
       MinVersionForAdditionalComputeSecurityGroupIdsDay2 = ''4.11.0'',
       IsGreaterThanOrEqual = (\<lambda>v m. Inr (v \<noteq> ''4.10.0'')),
       FormatMajorMinorPatch = (\<lambda>v. Inr v),
       MajorMinorPatchFormattedErrorOutput = (\<lambda>err. err),
       HostedClusterOnlyFlag = (\<lambda>f. False),
       GetString_name = (\<lambda>d. Inl ''EOF''),
       getSubnetFromUser = (\<lambda>isSubnetSet ia. Inr ''''),
       confirm_Yes = False,
       GetBool_multiAZ = (\<lambda>d. Inl ''EOF''),
       GetOption_availabilityZone = (\<lambda>options d. Inl ''EOF''),
       GetBool_autoscaling = (\<lambda>d. Inl ''EOF''),
       GetInt_minReplicas = (\<lambda>d. Inl ''EOF''),
       GetInt_maxReplicas = (\<lambda>d. Inl ''EOF''),
       GetInt_replicas = (\<lambda>d. Inl ''EOF''),
       getSecurityGroupsOption = Inl ''EOF'',
       TrimSpace = (\<lambda>s. Trim s [CHR '' '', CHR 0x09]),
       GetSubnetAvailabilityZone = (\<lambda>subnet. Inr ''us-east-1b''),
       GetAvailableMachineTypesInRegion = (\<lambda>region zones role. Inr [''m5.xlarge'']),
       Errorf_format = (\<lambda>err. err),
       GetAvailableIDs = (\<lambda>items multiAZ. items),
       GetOption_instanceType = (\<lambda>options d. Inl ''EOF''),
       ValidateMachineType =
         (\<lambda>items t multiAZ. if t \<in> set items then None else Some ''unknown machine type''),
       GetLabelMap = (\<lambda>labels ia. Some []),
       GetTaints = (\<lambda>taints ia. Some []),
       IsLocalAvailabilityZone = (\<lambda>zone. Inr (zone = ''us-east-1-bos-1a'')),
       GetBool_useSpot = (\<lambda>d. Inl ''EOF''),
       GetString_spotMaxPrice = (\<lambda>d. Inl ''EOF''),
       ParseFloat =
         (\<lambda>s bits. if s = ''0.01'' then (Finite (1 / 100), None)
                   else if s = ''0.5'' then (Finite (1 / 2), None)
                   else if s = ''-1'' then (Finite (- 1), None)
                   else if s = ''0'' then (Finite 0, None)
                   else (Finite 0, Some ''invalid syntax'')),
       MaxByteSize = 64,
       GetAwsTags = (\<lambda>tags ia. Some []),
       GetDefaultClusterFlavors = (\<lambda>flavour. 300),
       GigybyteStringer = (\<lambda>size. Sprintf_v (IntVal size) @ '' GiB''),
       GetString_rootDiskSize = (\<lambda>d. Inl ''EOF''),
       ParseDiskSizeToGigibyte = (\<lambda>s. Inl ''invalid disk size''),
       ValidateMachinePoolRootDiskSize = (\<lambda>version size. None),
       Build_error = (\<lambda>machinePool. None),
       OCM_CreateMachinePool = (\<lambda>clusterId machinePool. Inr machinePool),
       output_HasFlag = False,
       output_Print = (\<lambda>machinePool. None),
       GetVersionList = (\<lambda>channelGroup. Inr [''4.14.0'']),
       GetMinimalHostedMachinePoolVersion = (\<lambda>version. Inr ''4.12.0''),
       GetFilteredVersionList = (\<lambda>versions minVersion version. versions),
       GetOption_version = (\<lambda>options d. Inl ''EOF''),
       ValidateVersion = (\<lambda>version versions channelGroup. Inr version),
       GetVPCPrivateSubnets =
         (\<lambda>subnet. Inr [(Some ''subnet-0b761d44d3d9a4663'', Some ''us-east-1a''),
                         (Some ''subnet-0f87f640e56934cbc'', Some ''us-east-1b'')]),
       getSubnetFromUser_again = (\<lambda>isSubnetSet ia. Inl ''EOF''),
       range_order = (\<lambda>zones. zones),
       MinNodePoolReplicaValidator = (\<lambda>autoscaling. minReplicaValidator False),
       MaxNodePoolReplicaValidator = (\<lambda>minReplicas. maxReplicaValidator minReplicas False),
       CreateNodePools_rest =
         (\<lambda>ia name version subnet scaling. \<lparr> create_calls = [()], outcome = Returned None \<rparr>) \<rparr>"

text \<open>Which flags the command line has set: those of a list.\<close>

definition flagsSet :: "string list \<Rightarrow> string \<Rightarrow> bool" where
  "flagsSet fs f = (f \<in> set fs)"

text \<open>The machine pool that the example options give on the example cluster.\<close>

definition examplePool :: MachinePool where
  "examplePool =
     \<lparr> mp_ID = ''machinepool1'', mp_InstanceType = ''m5.xlarge'', mp_Labels = [], mp_Taints = [],
       mp_Autoscaling = None, mp_Replicas = Some 3, mp_SpotMarketOptions = None,
       mp_AdditionalSecurityGroupIds = None, mp_Tags = None, mp_AvailabilityZones = None,
       mp_Subnets = None, mp_RootVolumeSize = None \<rparr>"

text \<open>The example options with autoscaling between 3 and 6 replicas, and the machine pool they give.\<close>

definition autoscalingOptions :: CreateMachinepoolUserOptions where
  "autoscalingOptions =
     exampleOptions \<lparr> AutoscalingEnabled := True, MinReplicas := 3, MaxReplicas := 6 \<rparr>"

definition autoscalingPool :: MachinePool where
  "autoscalingPool = examplePool \<lparr> mp_Autoscaling := Some (3, 6), mp_Replicas := None \<rparr>"

definition autoscalingFlags :: "string \<Rightarrow> bool" where
  "autoscalingFlags = flagsSet [''enable-autoscaling'', ''min-replicas'', ''max-replicas'']"

text \<open>
  The example options with spot instances at the max price \<open>0.5\<close>, the flags of that
  command line, and the machine pool they give.
\<close>

definition spotOptions :: CreateMachinepoolUserOptions where
  "spotOptions = exampleOptions \<lparr> UseSpotInstances := True, SpotMaxPrice := ''0.5'' \<rparr>"

definition spotFlags :: "string \<Rightarrow> bool" where
  "spotFlags = flagsSet [''replicas'', ''use-spot-instances'', ''spot-max-price'']"

definition spotPool :: MachinePool where
  "spotPool = examplePool \<lparr> mp_SpotMarketOptions := Some (Some (Finite (1 / 2))) \<rparr>"


definition localZoneCollaborators :: "unit NodePoolCollaborators" where
  "localZoneCollaborators =
     exampleCollaborators
       \<lparr> getSubnetFromUser := (\<lambda>isSubnetSet ia. Inr ''subnet-0b761d44d3d9a4663''),
         GetSubnetAvailabilityZone := (\<lambda>subnet. Inr ''us-east-1-bos-1a'') \<rparr>"


text \<open>The example options with the name padded by spaces and a tab.\<close>

definition paddedOptions :: CreateMachinepoolUserOptions where
  "paddedOptions =
     exampleOptions \<lparr> Name := [CHR '' '', CHR 0x09] @ ''machinepool1'' @ [CHR 0x09, CHR '' ''] \<rparr>"





section \<open>Properties\<close>

subsection \<open>The monad of failures\<close>

lemma bindE_Inr_iff: "bindE m f = Inr y \<longleftrightarrow> (\<exists>x. m = Inr x \<and> f x = Inr y)"
  by (cases m) (simp_all add: bindE_def)

lemma wrapE_Inr_iff: "wrapE p m = Inr x \<longleftrightarrow> m = Inr x"
  by (cases m) (simp_all add: wrapE_def)

lemma validated_Inr_iff: "validated e x = Inr y \<longleftrightarrow> e = None \<and> y = x"
  by (cases e) (auto simp: validated_def)

subsection \<open>Printing and parsing integers\<close>

lemma digit_val_digit_char: "d < 10 \<Longrightarrow> digit_val (digit_char d) = Some (int d)"
proof -
  assume "d < 10"
  then have "d = 0 \<or> d = 1 \<or> d = 2 \<or> d = 3 \<or> d = 4 \<or> d = 5 \<or> d = 6 \<or> d = 7 \<or> d = 8 \<or> d = 9"
    by arith
  then show ?thesis
    by (elim disjE) (simp_all add: digit_val_def digit_char_def)
qed

lemma digit_char_not_sign: "d < 10 \<Longrightarrow> digit_char d \<noteq> CHR ''-'' \<and> digit_char d \<noteq> CHR ''+''"
proof -
  assume "d < 10"
  then have "d = 0 \<or> d = 1 \<or> d = 2 \<or> d = 3 \<or> d = 4 \<or> d = 5 \<or> d = 6 \<or> d = 7 \<or> d = 8 \<or> d = 9"
    by arith
  then show ?thesis
    by (elim disjE) (simp_all add: digit_char_def)
qed

lemma parse_digits_snoc:
  "parse_digits (xs @ [c]) acc =
     (case parse_digits xs acc of
        Inl e \<Rightarrow> Inl e
      | Inr m \<Rightarrow>
          (case digit_val c of
             None \<Rightarrow> Inl Syntax
           | Some d \<Rightarrow> if m * 10 + d > 2 ^ 64 - 1 then Inl Range else Inr (m * 10 + d)))"
  by (induction xs arbitrary: acc) (auto split: option.splits sum.splits)

lemma parse_digits_digits:
  "parse_digits (digits n) 0 = (if int n \<le> 2 ^ 64 - 1 then Inr (int n) else Inl Range)"
proof (induction n rule: digits.induct)
  case (1 n)
  show ?case
  proof (cases "n < 10")
    case True
    then show ?thesis
      by (subst digits.simps) (simp add: digit_val_digit_char)
  next
    case False
    then have ih: "parse_digits (digits (n div 10)) 0 =
        (if int (n div 10) \<le> 2 ^ 64 - 1 then Inr (int (n div 10)) else Inl Range)"
      using "1" by simp
    have e: "int (n div 10) * 10 + int (n mod 10) = int n"
      by (simp add: zdiv_int zmod_int)
    have b: "\<not> int (n div 10) \<le> 2 ^ 64 - 1 \<Longrightarrow> \<not> int n \<le> 2 ^ 64 - 1"
      by (simp add: zdiv_int)
    show ?thesis
      using False ih e b
      by (subst digits.simps) (simp add: parse_digits_snoc digit_val_digit_char)
  qed
qed

lemma digits_head: "\<exists>c cs. digits n = c # cs \<and> c \<noteq> CHR ''-'' \<and> c \<noteq> CHR ''+''"
proof (induction n rule: digits.induct)
  case (1 n)
  show ?case
  proof (cases "n < 10")
    case True
    then show ?thesis
      by (subst digits.simps) (simp add: digit_char_not_sign)
  next
    case False
    then obtain c cs where "digits (n div 10) = c # cs" "c \<noteq> CHR ''-''" "c \<noteq> CHR ''+''"
      using "1" by blast
    then show ?thesis
      using False by (subst digits.simps) simp
  qed
qed

text \<open>Printing an \<open>int\<close> and parsing it back gives the same \<open>int\<close>, for the values that Go has.\<close>

lemma Atoi_Sprintf_v:
  "Atoi (Sprintf_v (IntVal n)) =
     (if - (2 ^ 63) \<le> n \<and> n < 2 ^ 63 then Inr n else Inl (ErrRange (Sprintf_v (IntVal n))))"
proof (cases "n < 0")
  case True
  obtain c cs where d: "digits (nat (- n)) = c # cs" using digits_head by blast
  have p: "parse_digits (c # cs) 0 = (if - n \<le> 2 ^ 64 - 1 then Inr (- n) else Inl Range)"
    using parse_digits_digits [of "nat (- n)"] True d by simp
  show ?thesis
    using True p by (simp add: Atoi_def d del: parse_digits.simps)
next
  case False
  obtain c cs where d: "digits (nat n) = c # cs" "c \<noteq> CHR ''-''" "c \<noteq> CHR ''+''"
    using digits_head by blast
  have p: "parse_digits (c # cs) 0 = (if n \<le> 2 ^ 64 - 1 then Inr n else Inl Range)"
    using parse_digits_digits [of "nat n"] False d by simp
  show ?thesis
    using False p d(2,3) by (simp add: Atoi_def d(1) del: parse_digits.simps)
qed

lemma go_rem_3: "go_rem n 3 \<noteq> 0 \<longleftrightarrow> \<not> 3 dvd n"
proof (cases "n < 0")
  case True
  then have "go_rem n 3 = - ((- n) mod 3)" by (simp add: go_rem_def)
  then show ?thesis by presburger
next
  case False
  then have "go_rem n 3 = n mod 3" by (cases "n = 0") (simp_all add: go_rem_def)
  then show ?thesis by presburger
qed

subsection \<open>The validators of the replicas\<close>

lemma minReplicaValidator_None_iff:
  "minReplicaValidator multiAZMachinePool v = None \<longleftrightarrow>
     (\<exists>n. Atoi (Sprintf_v v) = Inr n \<and> 0 \<le> n \<and> (multiAZMachinePool \<longrightarrow> 3 dvd n))"
  by (cases "Atoi (Sprintf_v v)") (auto simp: minReplicaValidator_def go_rem_3)

lemma maxReplicaValidator_None_iff:
  "maxReplicaValidator minReplicas multiAZMachinePool v = None \<longleftrightarrow>
     (\<exists>n. Atoi (Sprintf_v v) = Inr n \<and> minReplicas \<le> n \<and> (multiAZMachinePool \<longrightarrow> 3 dvd n))"
  by (cases "Atoi (Sprintf_v v)") (auto simp: maxReplicaValidator_def go_rem_3)

lemma minReplicaValidator_int:
  "minReplicaValidator multiAZMachinePool (IntVal n) = None \<longleftrightarrow>
     0 \<le> n \<and> n < 2 ^ 63 \<and> (multiAZMachinePool \<longrightarrow> 3 dvd n)"
  unfolding minReplicaValidator_None_iff Atoi_Sprintf_v by auto

lemma maxReplicaValidator_int:
  "maxReplicaValidator minReplicas multiAZMachinePool (IntVal n) = None \<longleftrightarrow>
     minReplicas \<le> n \<and> - (2 ^ 63) \<le> n \<and> n < 2 ^ 63 \<and> (multiAZMachinePool \<longrightarrow> 3 dvd n)"
  unfolding maxReplicaValidator_None_iff Atoi_Sprintf_v by auto

lemma maxReplicaValidator_less:
  "Atoi (Sprintf_v v) = Inr maxReplicas \<Longrightarrow> maxReplicas < minReplicas \<Longrightarrow>
     maxReplicaValidator minReplicas multiAZMachinePool v =
       Some (Errorf ''max-replicas must be greater or equal to min-replicas'')"
  by (simp add: maxReplicaValidator_def)

subsection \<open>The stages of CreateMachinePool\<close>

lemma scaling_InrD:
  assumes "CreateMachinePool_scaling w Changed args ia m = Inr (a, mn, mx, r)"
  shows "(a \<longrightarrow> minReplicaValidator m (IntVal mn) = None \<and> maxReplicaValidator mn m (IntVal mx) = None)
       \<and> (\<not> a \<longrightarrow> minReplicaValidator m (IntVal r) = None)"
  using assms
  by (auto simp: CreateMachinePool_scaling_def Let_def bindE_Inr_iff validated_Inr_iff
      split: if_splits)

lemma placement_InrD:
  assumes "CreateMachinePool_placement w Changed cluster args ia = Inr (m, az, sn)"
  shows "(sn \<noteq> '''' \<longrightarrow> az = '''') \<and> (m \<longrightarrow> az = '''' \<and> sn = '''' \<and> MultiAZ cluster)"
  using assms
  by (auto simp: CreateMachinePool_placement_def Let_def bindE_Inr_iff wrapE_Inr_iff
      split: if_splits list.splits sum.splits)

lemma spot_InrD:
  assumes "CreateMachinePool_spot w Changed args ia sn zones = Inr (us, price, maxPrice)"
  shows "maxPrice = (if price \<noteq> ''on-demand''
                     then Some (fst (ParseFloat w price (MaxByteSize w))) else None)
       \<and> spotMaxPriceValidator (ParseFloat w) (MaxByteSize w) (StrVal price) = None"
  using assms
  by (auto simp: CreateMachinePool_spot_def Let_def bindE_Inr_iff validated_Inr_iff
      split: if_splits)

text \<open>A request that is built went through every block.\<close>

lemma request_InrE:
  assumes "CreateMachinePool_request w Changed key cluster args ia0 = Inr mp"
  obtains compat ia name m az sn a mn mx r sgs zones it us price maxPrice rv
  where "CreateMachinePool_flags w Changed cluster args = Inr compat"
    and "machinePoolName w args ia0 = Inr (ia, name)"
    and "CreateMachinePool_placement w Changed cluster args ia = Inr (m, az, sn)"
    and "CreateMachinePool_scaling w Changed args ia m = Inr (a, mn, mx, r)"
    and "CreateMachinePool_securityGroupIds w Changed cluster args ia compat = Inr sgs"
    and "CreateMachinePool_instanceType w cluster args ia m az sn = Inr (zones, it)"
    and "CreateMachinePool_spot w Changed args ia sn zones = Inr (us, price, maxPrice)"
    and "CreateMachinePool_rootDiskSize w cluster args ia = Inr rv"
    and "mp_ID mp = name"
    and "mp_Autoscaling mp = (if a then Some (mn, mx) else None)"
    and "mp_Replicas mp = (if a then None else Some r)"
    and "mp_SpotMarketOptions mp = (if us then Some maxPrice else None)"
    and "mp_Subnets mp = (if sn \<noteq> [] then Some [sn] else None)"
    and "mp_AvailabilityZones mp =
           (if MultiAZ cluster \<and> \<not> m \<and> az \<noteq> [] then Some [az] else None)"
    and "mp_AdditionalSecurityGroupIds mp = (if length sgs > 0 then Some sgs else None)"
  using assms
  unfolding CreateMachinePool_request_def
  by (auto simp: bindE_Inr_iff Let_def split: option.splits)

lemma request_InrD:
  assumes "CreateMachinePool_request w Changed key cluster args ia0 = Inr mp"
  shows "\<exists>compat ia name m az sn a mn mx r sgs zones it us price maxPrice rv.
      CreateMachinePool_flags w Changed cluster args = Inr compat
    \<and> machinePoolName w args ia0 = Inr (ia, name)
    \<and> CreateMachinePool_placement w Changed cluster args ia = Inr (m, az, sn)
    \<and> CreateMachinePool_scaling w Changed args ia m = Inr (a, mn, mx, r)
    \<and> CreateMachinePool_securityGroupIds w Changed cluster args ia compat = Inr sgs
    \<and> CreateMachinePool_instanceType w cluster args ia m az sn = Inr (zones, it)
    \<and> CreateMachinePool_spot w Changed args ia sn zones = Inr (us, price, maxPrice)
    \<and> CreateMachinePool_rootDiskSize w cluster args ia = Inr rv
    \<and> mp_ID mp = name
    \<and> mp_Autoscaling mp = (if a then Some (mn, mx) else None)
    \<and> mp_Replicas mp = (if a then None else Some r)
    \<and> mp_SpotMarketOptions mp = (if us then Some maxPrice else None)
    \<and> mp_Subnets mp = (if sn \<noteq> [] then Some [sn] else None)
    \<and> mp_AvailabilityZones mp =
           (if MultiAZ cluster \<and> \<not> m \<and> az \<noteq> [] then Some [az] else None)
    \<and> mp_AdditionalSecurityGroupIds mp = (if length sgs > 0 then Some sgs else None)"
  using assms by (elim request_InrE) blast

lemma create_calls_request:
  "mp \<in> set (create_calls (CreateMachinePool w Changed key cluster args ia0)) \<longleftrightarrow>
     CreateMachinePool_request w Changed key cluster args ia0 = Inr mp"
  by (auto simp: CreateMachinePool_def split: sum.splits)

lemma request_Inl:
  "CreateMachinePool_request w Changed key cluster args ia0 = Inl f \<Longrightarrow>
     CreateMachinePool w Changed key cluster args ia0 =
       \<lparr> create_calls = [], outcome = outcome_of f \<rparr>"
  by (simp add: CreateMachinePool_def)

subsection \<open>Running the functions on the examples\<close>

lemmas run_defs =
  CreateMachinePool_def CreateMachinePool_request_def CreateMachinePool_flags_def
  machinePoolName_def CreateMachinePool_placement_def CreateMachinePool_scaling_def
  CreateMachinePool_securityGroupIds_def CreateMachinePool_instanceType_def
  CreateMachinePool_spot_def CreateMachinePool_rootDiskSize_def
  getMachinePoolAvailabilityZones_def bindE_def wrapE_def orExit_def validated_def quote_def
  Trim_def Contains_def minReplicaValidator_def maxReplicaValidator_def
  spotMaxPriceValidator_def Atoi_def digits.simps digit_char_def digit_val_def go_rem_def
  machinePoolKeyRE_def Opt_def exampleCollaborators_def exampleCluster_def
  singleAZCluster_def exampleOptions_def examplePool_def flagsSet_def

lemma example_run:
  "CreateMachinePool exampleCollaborators (flagsSet [''replicas'']) ''test-cluster-key''
     exampleCluster exampleOptions False =
   \<lparr> create_calls = [examplePool], outcome = Returned None \<rparr>"
  by (simp add: run_defs)

lemma example_name:
  "machinePoolName exampleCollaborators exampleOptions False = Inr (False, ''machinepool1'')"
  by (simp add: run_defs)

lemma example_placement:
  "CreateMachinePool_placement exampleCollaborators (flagsSet [''replicas'']) exampleCluster
     exampleOptions False = Inr (True, '''', '''')"
  by (simp add: run_defs)

text \<open>
  C2. A multi-AZ machine pool takes a number of replicas only if 3 divides it: with
  \<open>multiAZMachinePool = true\<close> both validators return an error for every value that is not
  an integer that 3 divides, and a machine pool that \<open>CreateMachinePool\<close> sends for a
  multi-AZ placement has its \<open>minReplicas\<close> and \<open>maxReplicas\<close>, or its \<open>replicas\<close>,
  divisible by 3. With \<open>multiAZMachinePool = false\<close> the validators ask for no
  divisibility: \<open>minReplicaValidator\<close> takes exactly the integers from 0 on and
  \<open>maxReplicaValidator\<close> exactly those from \<open>minReplicas\<close> on.
\<close>

theorem C2_multi_az_replicas_divisible_by_3:
  "(\<not> (\<exists>n. Atoi (Sprintf_v v) = Inr n \<and> 3 dvd n) \<longrightarrow> minReplicaValidator True v \<noteq> None)
   \<and> (\<not> (\<exists>n. Atoi (Sprintf_v v) = Inr n \<and> 3 dvd n)
        \<longrightarrow> maxReplicaValidator minReplicas True v \<noteq> None)
   \<and> (minReplicaValidator False v = None \<longleftrightarrow> (\<exists>n. Atoi (Sprintf_v v) = Inr n \<and> 0 \<le> n))
   \<and> (maxReplicaValidator minReplicas False v = None
        \<longleftrightarrow> (\<exists>n. Atoi (Sprintf_v v) = Inr n \<and> minReplicas \<le> n))
   \<and> (mp \<in> set (create_calls (CreateMachinePool w Changed clusterKey cluster args ia0))
        \<and> machinePoolName w args ia0 = Inr (ia, name)
        \<and> CreateMachinePool_placement w Changed cluster args ia = Inr (True, az, subnet)
        \<longrightarrow> (\<forall>mn mx. mp_Autoscaling mp = Some (mn, mx) \<longrightarrow> 3 dvd mn \<and> 3 dvd mx)
          \<and> (\<forall>r. mp_Replicas mp = Some r \<longrightarrow> 3 dvd r))"
proof -
  have 1: "\<not> (\<exists>n. Atoi (Sprintf_v v) = Inr n \<and> 3 dvd n) \<longrightarrow> minReplicaValidator True v \<noteq> None"
    by (auto simp: minReplicaValidator_None_iff)
  have 2: "\<not> (\<exists>n. Atoi (Sprintf_v v) = Inr n \<and> 3 dvd n)
        \<longrightarrow> maxReplicaValidator minReplicas True v \<noteq> None"
    by (auto simp: maxReplicaValidator_None_iff)
  have 3: "minReplicaValidator False v = None \<longleftrightarrow> (\<exists>n. Atoi (Sprintf_v v) = Inr n \<and> 0 \<le> n)"
    by (simp add: minReplicaValidator_None_iff)
  have 4: "maxReplicaValidator minReplicas False v = None
          \<longleftrightarrow> (\<exists>n. Atoi (Sprintf_v v) = Inr n \<and> minReplicas \<le> n)"
    by (simp add: maxReplicaValidator_None_iff)
  have 5: "(\<forall>mn mx. mp_Autoscaling mp = Some (mn, mx) \<longrightarrow> 3 dvd mn \<and> 3 dvd mx)
          \<and> (\<forall>r. mp_Replicas mp = Some r \<longrightarrow> 3 dvd r)"
    if h: "mp \<in> set (create_calls (CreateMachinePool w Changed clusterKey cluster args ia0))
      \<and> machinePoolName w args ia0 = Inr (ia, name)
      \<and> CreateMachinePool_placement w Changed cluster args ia = Inr (True, az, subnet)"
  proof -
    from h have req: "CreateMachinePool_request w Changed clusterKey cluster args ia0 = Inr mp"
      by (simp add: create_calls_request)
    from request_InrD [OF req] obtain ia' name' m az' sn' a mn mx r
      where n: "machinePoolName w args ia0 = Inr (ia', name')"
        and p': "CreateMachinePool_placement w Changed cluster args ia' = Inr (m, az', sn')"
        and s: "CreateMachinePool_scaling w Changed args ia' m = Inr (a, mn, mx, r)"
        and au: "mp_Autoscaling mp = (if a then Some (mn, mx) else None)"
        and re: "mp_Replicas mp = (if a then None else Some r)"
      by blast
    from n h have "ia' = ia" by simp
    with p' h have "m = True" by auto
    with s have v: "(a \<longrightarrow> minReplicaValidator True (IntVal mn) = None
                        \<and> maxReplicaValidator mn True (IntVal mx) = None)
                  \<and> (\<not> a \<longrightarrow> minReplicaValidator True (IntVal r) = None)"
      using scaling_InrD by blast
    show ?thesis
      using v au re by (cases a) (simp_all add: minReplicaValidator_int maxReplicaValidator_int)
  qed
  show ?thesis
    using 1 2 3 4 5 by blast
qed

theorem C2_witness:
  "minReplicaValidator True (IntVal 2) \<noteq> None
   \<and> maxReplicaValidator 1 True (IntVal 5) \<noteq> None
   \<and> minReplicaValidator False (IntVal 2) = None
   \<and> maxReplicaValidator 1 False (IntVal 5) = None
   \<and> examplePool \<in> set (create_calls (CreateMachinePool exampleCollaborators
        (flagsSet [''replicas'']) ''test-cluster-key'' exampleCluster exampleOptions False))
   \<and> machinePoolName exampleCollaborators exampleOptions False = Inr (False, ''machinepool1'')
   \<and> CreateMachinePool_placement exampleCollaborators (flagsSet [''replicas'']) exampleCluster
        exampleOptions False = Inr (True, '''', '''')
   \<and> mp_Replicas examplePool = Some 3
   \<and> 3 dvd (3 :: int)"
proof -
  have a2: "Atoi (Sprintf_v (IntVal 2)) = Inr 2" and a5: "Atoi (Sprintf_v (IntVal 5)) = Inr 5"
    by (simp_all add: Atoi_Sprintf_v del: Sprintf_v.simps)
  have h: "examplePool \<in> set (create_calls (CreateMachinePool exampleCollaborators
        (flagsSet [''replicas'']) ''test-cluster-key'' exampleCluster exampleOptions False))"
    by (simp add: example_run)
  have r: "mp_Replicas examplePool = Some 3"
    by (simp add: examplePool_def)
  note c2 = C2_multi_az_replicas_divisible_by_3 [of "IntVal 2" 1 examplePool exampleCollaborators
      "flagsSet [''replicas'']" "''test-cluster-key''" exampleCluster exampleOptions False
      False "''machinepool1''" "''''" "''''"]
  note c5 = C2_multi_az_replicas_divisible_by_3 [of "IntVal 5" 1 examplePool exampleCollaborators
      "flagsSet [''replicas'']" "''test-cluster-key''" exampleCluster exampleOptions False
      False "''machinepool1''" "''''" "''''"]
  show ?thesis
    using c2 c5 a2 a5 h r example_name example_placement by simp
qed

lemma scaling_flags_InrD:
  assumes "CreateMachinePool_scaling w Changed args ia m = Inr (a, mn, mx, r)"
    and "\<not> ia" and "AutoscalingEnabled args"
    and "Changed ''min-replicas''" and "Changed ''max-replicas''"
  shows "a \<and> mn = MinReplicas args \<and> mx = MaxReplicas args"
  using assms
  by (auto simp: CreateMachinePool_scaling_def Let_def bindE_Inr_iff validated_Inr_iff
      split: if_splits)

lemma machinePoolName_mode:
  assumes "machinePoolName w args ia0 = Inr (ia, name)"
    and "Trim (Name args) [CHR '' '', CHR 0x09] \<noteq> []"
  shows "ia = ia0"
  using assms
  by (auto simp: machinePoolName_def Let_def bindE_Inr_iff split: if_splits)

lemma autoscaling_run:
  "CreateMachinePool exampleCollaborators autoscalingFlags ''test-cluster-key''
     exampleCluster autoscalingOptions False =
   \<lparr> create_calls = [autoscalingPool], outcome = Returned None \<rparr>"
  by (simp add: run_defs autoscalingOptions_def autoscalingPool_def autoscalingFlags_def)

text \<open>
  C3. An autoscaled request has \<open>minReplicas \<le> maxReplicas\<close>: \<open>maxReplicaValidator\<close>
  returns its error for every value that parses to an integer below \<open>minReplicas\<close>; every
  machine pool that \<open>CreateMachinePool\<close> sends with autoscaling has
  \<open>minReplicas \<le> maxReplicas\<close>; and when autoscaling is on, the session is not interactive
  and both flags are given with \<open>max-replicas\<close> below \<open>min-replicas\<close>, no create call is
  sent and the function does not return \<open>nil\<close>.
\<close>

theorem C3_min_replicas_le_max_replicas:
  "(Atoi (Sprintf_v v) = Inr maxReplicas \<and> maxReplicas < minReplicas
      \<longrightarrow> maxReplicaValidator minReplicas multiAZMachinePool v =
            Some (Errorf ''max-replicas must be greater or equal to min-replicas''))
   \<and> (maxReplicas < minReplicas
        \<longrightarrow> maxReplicaValidator minReplicas multiAZMachinePool (IntVal maxReplicas) \<noteq> None)
   \<and> (mp \<in> set (create_calls (CreateMachinePool w Changed clusterKey cluster args ia0))
        \<and> mp_Autoscaling mp = Some (mn, mx) \<longrightarrow> mn \<le> mx)
   \<and> (AutoscalingEnabled args \<and> \<not> ia0 \<and> Trim (Name args) [CHR '' '', CHR 0x09] \<noteq> []
        \<and> Changed ''min-replicas'' \<and> Changed ''max-replicas''
        \<and> MaxReplicas args < MinReplicas args
        \<longrightarrow> create_calls (CreateMachinePool w Changed clusterKey cluster args ia0) = []
          \<and> outcome (CreateMachinePool w Changed clusterKey cluster args ia0) \<noteq> Returned None)"
proof -
  have 1: "Atoi (Sprintf_v v) = Inr maxReplicas \<and> maxReplicas < minReplicas
      \<longrightarrow> maxReplicaValidator minReplicas multiAZMachinePool v =
            Some (Errorf ''max-replicas must be greater or equal to min-replicas'')"
    by (simp add: maxReplicaValidator_less)
  have 2: "maxReplicas < minReplicas
        \<longrightarrow> maxReplicaValidator minReplicas multiAZMachinePool (IntVal maxReplicas) \<noteq> None"
    by (simp add: maxReplicaValidator_int)
  have sent: "mn' \<le> mx'"
    if "CreateMachinePool_request w Changed clusterKey cluster args ia0 = Inr mp'"
      and "mp_Autoscaling mp' = Some (mn', mx')" for mp' mn' mx'
  proof -
    from request_InrD [OF that(1)] obtain ia m a mn0 mx0 r
      where s: "CreateMachinePool_scaling w Changed args ia m = Inr (a, mn0, mx0, r)"
        and au: "mp_Autoscaling mp' = (if a then Some (mn0, mx0) else None)"
      by blast
    from au that(2) have a: "a" and e: "mn0 = mn'" "mx0 = mx'"
      by (simp_all split: if_splits)
    from scaling_InrD [OF s] a have "maxReplicaValidator mn0 m (IntVal mx0) = None"
      by simp
    then show ?thesis
      using e by (simp add: maxReplicaValidator_int)
  qed
  have 3: "mp \<in> set (create_calls (CreateMachinePool w Changed clusterKey cluster args ia0))
        \<and> mp_Autoscaling mp = Some (mn, mx) \<longrightarrow> mn \<le> mx"
    using sent by (simp add: create_calls_request)
  have 4: "create_calls (CreateMachinePool w Changed clusterKey cluster args ia0) = []
          \<and> outcome (CreateMachinePool w Changed clusterKey cluster args ia0) \<noteq> Returned None"
    if h: "AutoscalingEnabled args \<and> \<not> ia0 \<and> Trim (Name args) [CHR '' '', CHR 0x09] \<noteq> []
        \<and> Changed ''min-replicas'' \<and> Changed ''max-replicas''
        \<and> MaxReplicas args < MinReplicas args"
  proof (cases "CreateMachinePool_request w Changed clusterKey cluster args ia0")
    case (Inl f)
    then show ?thesis
      by (cases f) (simp_all add: CreateMachinePool_def)
  next
    case (Inr mp')
    from request_InrD [OF Inr] obtain ia name m a mn0 mx0 r
      where n: "machinePoolName w args ia0 = Inr (ia, name)"
        and s: "CreateMachinePool_scaling w Changed args ia m = Inr (a, mn0, mx0, r)"
        and au: "mp_Autoscaling mp' = (if a then Some (mn0, mx0) else None)"
      by blast
    from machinePoolName_mode [OF n] h have "\<not> ia" by simp
    with scaling_flags_InrD [OF s] h
    have "a" "mn0 = MinReplicas args" "mx0 = MaxReplicas args" by simp_all
    with au have "mp_Autoscaling mp' = Some (MinReplicas args, MaxReplicas args)" by simp
    from sent [OF Inr this] h show ?thesis by simp
  qed
  show ?thesis
    using 1 2 3 4 by blast
qed

theorem C3_witness:
  "Atoi (Sprintf_v (IntVal 0)) = Inr 0 \<and> (0 :: int) < 1
   \<and> maxReplicaValidator 1 True (IntVal 0) =
        Some (Errorf ''max-replicas must be greater or equal to min-replicas'')
   \<and> autoscalingPool \<in> set (create_calls (CreateMachinePool exampleCollaborators
        autoscalingFlags ''test-cluster-key'' exampleCluster autoscalingOptions False))
   \<and> mp_Autoscaling autoscalingPool = Some (3, 6) \<and> (3 :: int) \<le> 6
   \<and> MaxReplicas (autoscalingOptions \<lparr> MinReplicas := 9 \<rparr>)
        < MinReplicas (autoscalingOptions \<lparr> MinReplicas := 9 \<rparr>)
   \<and> create_calls (CreateMachinePool exampleCollaborators autoscalingFlags ''test-cluster-key''
        exampleCluster (autoscalingOptions \<lparr> MinReplicas := 9 \<rparr>) False) = []"
proof -
  have a: "Atoi (Sprintf_v (IntVal 0)) = Inr 0"
    by (simp add: Atoi_Sprintf_v del: Sprintf_v.simps)
  have h: "autoscalingPool \<in> set (create_calls (CreateMachinePool exampleCollaborators
        autoscalingFlags ''test-cluster-key'' exampleCluster autoscalingOptions False))"
    by (simp add: autoscaling_run)
  have p: "mp_Autoscaling autoscalingPool = Some (3, 6)"
    by (simp add: autoscalingPool_def)
  have o: "AutoscalingEnabled (autoscalingOptions \<lparr> MinReplicas := 9 \<rparr>)"
    "Trim (Name (autoscalingOptions \<lparr> MinReplicas := 9 \<rparr>)) [CHR '' '', CHR 0x09] \<noteq> []"
    "autoscalingFlags ''min-replicas''" "autoscalingFlags ''max-replicas''"
    "MaxReplicas (autoscalingOptions \<lparr> MinReplicas := 9 \<rparr>)
        < MinReplicas (autoscalingOptions \<lparr> MinReplicas := 9 \<rparr>)"
    by (simp_all add: autoscalingOptions_def exampleOptions_def autoscalingFlags_def
        flagsSet_def Trim_def)
  note c = C3_min_replicas_le_max_replicas [of "IntVal 0" 0 1 True autoscalingPool
      exampleCollaborators autoscalingFlags "''test-cluster-key''" exampleCluster
      autoscalingOptions False 3 6]
  note d = C3_min_replicas_le_max_replicas [of "IntVal 0" 0 1 True autoscalingPool
      exampleCollaborators autoscalingFlags "''test-cluster-key''" exampleCluster
      "autoscalingOptions \<lparr> MinReplicas := 9 \<rparr>" False 3 6]
  show ?thesis
    using c d a h p o by simp
qed

subsection \<open>Regular expressions: derivatives decide the language\<close>

lemma nullable_lang: "nullable r \<longleftrightarrow> [] \<in> lang r"
  by (induction r) (auto intro: star.star_nil)

lemma star_cons_elim:
  assumes "x \<in> star A" and "x = c # w"
  shows "\<exists>u v. w = u @ v \<and> c # u \<in> A \<and> v \<in> star A"
  using assms
proof (induction arbitrary: w rule: star.induct)
  case star_nil
  then show ?case by simp
next
  case (star_app u v)
  show ?case
  proof (cases u)
    case Nil
    with star_app show ?thesis by simp
  next
    case (Cons a u')
    with star_app.prems have "a = c" and "w = u' @ v" by simp_all
    with Cons star_app.hyps show ?thesis by blast
  qed
qed

lemma star_cons: "c # w \<in> star A \<longleftrightarrow> (\<exists>u v. w = u @ v \<and> c # u \<in> A \<and> v \<in> star A)"
proof
  assume "c # w \<in> star A"
  then show "\<exists>u v. w = u @ v \<and> c # u \<in> A \<and> v \<in> star A"
    by (rule star_cons_elim) simp
next
  assume "\<exists>u v. w = u @ v \<and> c # u \<in> A \<and> v \<in> star A"
  then obtain u v where "w = u @ v" "c # u \<in> A" "v \<in> star A" by blast
  then show "c # w \<in> star A"
    using star.star_app [of "c # u" A v] by simp
qed

lemma deriv_lang: "w \<in> lang (deriv c r) \<longleftrightarrow> c # w \<in> lang r"
proof (induction r arbitrary: w)
  case (Cat r s)
  show ?case
    by (auto simp: Cat nullable_lang Cons_eq_append_conv)
next
  case (Star r)
  show ?case
    by (auto simp: Star star_cons)
qed auto

lemma MatchString_lang: "MatchString r s \<longleftrightarrow> s \<in> lang r"
  by (induction s arbitrary: r) (simp_all add: nullable_lang deriv_lang)

lemma star_chars: "w \<in> star (lang (Chars rs)) \<longleftrightarrow> (\<forall>c\<in>set w. in_class rs c)"
proof
  assume "w \<in> star (lang (Chars rs))"
  then show "\<forall>c\<in>set w. in_class rs c"
    by (induction rule: star.induct) auto
next
  assume "\<forall>c\<in>set w. in_class rs c"
  then show "w \<in> star (lang (Chars rs))"
  proof (induction w)
    case Nil
    show ?case by (rule star.star_nil)
  next
    case (Cons a w)
    then have "[a] \<in> lang (Chars rs)" and "w \<in> star (lang (Chars rs))" by simp_all
    then have "[a] @ w \<in> star (lang (Chars rs))" by (rule star.star_app)
    then show ?case by simp
  qed
qed

lemma snoc_shape:
  "(\<exists>x t. v = x @ [t] \<and> P x \<and> Q t) \<longleftrightarrow> v \<noteq> [] \<and> P (butlast v) \<and> Q (last v)"
proof
  assume "\<exists>x t. v = x @ [t] \<and> P x \<and> Q t"
  then show "v \<noteq> [] \<and> P (butlast v) \<and> Q (last v)" by auto
next
  assume "v \<noteq> [] \<and> P (butlast v) \<and> Q (last v)"
  then have "v = butlast v @ [last v] \<and> P (butlast v) \<and> Q (last v)" by simp
  then show "\<exists>x t. v = x @ [t] \<and> P x \<and> Q t" by blast
qed

lemma lang_Cat: "v \<in> lang (Cat r s) \<longleftrightarrow> (\<exists>x y. v = x @ y \<and> x \<in> lang r \<and> y \<in> lang s)"
  by auto

lemma lang_Chars: "y \<in> lang (Chars cs) \<longleftrightarrow> (\<exists>t. y = [t] \<and> in_class cs t)"
  by auto

lemma lang_Star: "x \<in> lang (Star r) \<longleftrightarrow> x \<in> star (lang r)"
  by simp

lemma lang_star_then_char:
  "v \<in> lang (Cat (Star (Chars ms)) (Chars ts)) \<longleftrightarrow>
     v \<noteq> [] \<and> (\<forall>c\<in>set (butlast v). in_class ms c) \<and> in_class ts (last v)"
proof -
  have "v \<in> lang (Cat (Star (Chars ms)) (Chars ts)) \<longleftrightarrow>
          (\<exists>x y. v = x @ y \<and> (\<forall>c\<in>set x. in_class ms c) \<and> (\<exists>t. y = [t] \<and> in_class ts t))"
    by (simp only: lang_Cat lang_Star star_chars lang_Chars)
  also have "\<dots> \<longleftrightarrow> (\<exists>x t. v = x @ [t] \<and> (\<forall>c\<in>set x. in_class ms c) \<and> in_class ts t)"
    by blast
  finally show ?thesis
    by (simp only: snoc_shape)
qed

lemma lang_Cat_Chars:
  "c # rest \<in> lang (Cat (Chars cs) r) \<longleftrightarrow> in_class cs c \<and> rest \<in> lang r"
proof -
  have "c # rest \<in> lang (Cat (Chars cs) r) \<longleftrightarrow>
          (\<exists>u v. c # rest = u @ v \<and> (\<exists>d. u = [d] \<and> in_class cs d) \<and> v \<in> lang r)"
    by auto
  also have "\<dots> \<longleftrightarrow> (\<exists>d v. c # rest = [d] @ v \<and> in_class cs d \<and> v \<in> lang r)"
    by blast
  also have "\<dots> \<longleftrightarrow> in_class cs c \<and> rest \<in> lang r"
    by auto
  finally show ?thesis .
qed

lemma lang_Opt: "w \<in> lang (Opt r) \<longleftrightarrow> w \<in> lang r \<or> w = []"
  by (auto simp: Opt_def)

lemma machinePoolKeyRE_shape: "MatchString machinePoolKeyRE s \<longleftrightarrow> name_shape s"
proof (cases s)
  case Nil
  then show ?thesis
    by (simp add: machinePoolKeyRE_def Opt_def name_shape_def)
next
  case (Cons c rest)
  show ?thesis
    unfolding MatchString_lang machinePoolKeyRE_def Cons lang_Cat_Chars lang_Opt
      lang_star_then_char name_shape_def list_all_iff
    by (simp del: in_class.simps) blast
qed

lemma set_butlast_last: "rest \<noteq> [] \<Longrightarrow> c \<in> set rest \<Longrightarrow> c \<in> set (butlast rest) \<or> c = last rest"
  by (induction rest) (auto split: if_splits)

lemma name_shape_chars:
  assumes "name_shape s" and "c \<in> set s"
  shows "in_class [(CHR ''-'', CHR ''-''), (CHR ''a'', CHR ''z''), (CHR ''0'', CHR ''9'')] c"
proof (cases s)
  case Nil
  with assms show ?thesis by simp
next
  case (Cons a rest)
  from assms(1) Cons have a: "in_class [(CHR ''a'', CHR ''z'')] a"
    by (simp add: name_shape_def del: in_class.simps)
  show ?thesis
  proof (cases "c = a")
    case True
    with a show ?thesis by simp
  next
    case False
    with assms(2) Cons have r: "c \<in> set rest" by simp
    then have ne: "rest \<noteq> []" by auto
    with assms(1) Cons
    have b: "\<forall>x\<in>set (butlast rest).
               in_class [(CHR ''-'', CHR ''-''), (CHR ''a'', CHR ''z''), (CHR ''0'', CHR ''9'')] x"
      and l: "in_class [(CHR ''a'', CHR ''z''), (CHR ''0'', CHR ''9'')] (last rest)"
      by (simp_all add: name_shape_def list_all_iff del: in_class.simps)
    from set_butlast_last [OF ne r] show ?thesis
    proof
      assume "c \<in> set (butlast rest)"
      with b show ?thesis by blast
    next
      assume "c = last rest"
      with l show ?thesis by simp
    qed
  qed
qed

subsection \<open>Trimming\<close>

lemma Trim_idem: "Trim (Trim s cutset) cutset = Trim s cutset"
proof -
  define P where "P = (\<lambda>c. c \<in> set cutset)"
  define t where "t = dropWhile P s"
  define u where "u = rev (dropWhile P (rev t))"
  have u: "Trim s cutset = u"
    by (simp add: Trim_def u_def t_def P_def)
  have k: "u = take (length t - length (takeWhile P (rev t))) t"
    by (simp add: u_def dropWhile_eq_drop rev_drop)
  define k where "k = length t - length (takeWhile P (rev t))"
  note k = k [folded k_def]
  have "dropWhile P u = u"
  proof (cases "u = []")
    case True
    then show ?thesis by simp
  next
    case False
    with k have "t \<noteq> []" "hd u = hd t" by auto
    then have "\<not> P (hd u)"
      unfolding t_def using hd_dropWhile [of P s] by simp
    with False show ?thesis by (cases u) simp_all
  qed
  moreover have "dropWhile P (rev u) = rev u"
    by (simp add: u_def)
  ultimately have "Trim u cutset = u"
    by (simp add: Trim_def P_def [symmetric])
  then show ?thesis
    by (simp add: u)
qed

lemma dropWhile_all: "set pre \<subseteq> A \<Longrightarrow> dropWhile (\<lambda>c. c \<in> A) (pre @ xs) = dropWhile (\<lambda>c. c \<in> A) xs"
  by (induction pre) auto

text \<open>\<open>Trim\<close> removes the bytes of the cutset around a string that neither begins nor ends with one.\<close>

lemma Trim_padded:
  assumes "set pre \<subseteq> set cutset" and "set post \<subseteq> set cutset"
    and "s \<noteq> []" and "hd s \<notin> set cutset" and "last s \<notin> set cutset"
  shows "Trim (pre @ s @ post) cutset = s"
proof -
  from assms(3,4) have 1: "dropWhile (\<lambda>c. c \<in> set cutset) (s @ post) = s @ post"
    by (cases s) simp_all
  have "rev s = rev (butlast s @ [last s])" using assms(3) by simp
  also have "\<dots> = last s # rev (butlast s)" by simp
  finally have r: "rev s = last s # rev (butlast s)" .
  have 2: "dropWhile (\<lambda>c. c \<in> set cutset) (rev s) = rev s"
    unfolding r using assms(5) by simp
  have 3: "set (rev post) \<subseteq> set cutset" using assms(2) by simp
  show ?thesis
    by (simp add: Trim_def dropWhile_all [OF assms(1)] 1 dropWhile_all [OF 3] 2)
qed

lemma Trim_example:
  "Trim ([CHR '' '', CHR 0x09] @ ''machinepool1'' @ [CHR 0x09, CHR '' '']) [CHR '' '', CHR 0x09]
     = ''machinepool1''"
  by (simp add: Trim_def)

lemma padded_run:
  "CreateMachinePool exampleCollaborators (flagsSet [''replicas'']) ''test-cluster-key''
     exampleCluster paddedOptions False =
   \<lparr> create_calls = [examplePool], outcome = Returned None \<rparr>"
  by (simp add: run_defs paddedOptions_def)

subsection \<open>The name of the machine pool\<close>

lemma machinePoolName_InrD:
  assumes "machinePoolName w args ia0 = Inr (ia, name)"
  shows "MatchString machinePoolKeyRE name \<and> Trim name [CHR '' '', CHR 0x09] = name"
  using assms
  by (auto simp: machinePoolName_def Let_def bindE_Inr_iff Trim_idem split: if_splits)

lemma machinePoolName_InlD:
  assumes "machinePoolName w args ia0 = Inl f"
  shows "\<exists>e. f = Fail (Errorf (''Expected a valid name for the machine pool'' @ e))"
proof (cases "Trim (Name args) [CHR '' '', CHR 0x09] = [] \<or> ia0")
  case True
  show ?thesis
  proof (cases "GetString_name w (Trim (Name args) [CHR '' '', CHR 0x09])")
    case (Inl err)
    with True assms
    have "f = Fail (Errorf (''Expected a valid name for the machine pool'' @ '': '' @ err))"
      by (auto simp: machinePoolName_def Let_def bindE_def wrapE_def split: if_splits)
    then show ?thesis by blast
  next
    case (Inr n)
    with True assms have "f = Fail (Errorf (''Expected a valid name for the machine pool'' @ []))"
      by (auto simp: machinePoolName_def Let_def bindE_def wrapE_def split: if_splits)
    then show ?thesis by blast
  qed
next
  case False
  with assms have "f = Fail (Errorf (''Expected a valid name for the machine pool'' @ []))"
    by (auto simp: machinePoolName_def Let_def bindE_def wrapE_def split: if_splits)
  then show ?thesis by blast
qed

lemma machinePoolName_flag:
  assumes "\<not> ia0" and "Trim (Name args) [CHR '' '', CHR 0x09] \<noteq> []"
  shows "machinePoolName w args ia0 =
           (if MatchString machinePoolKeyRE (Trim (Name args) [CHR '' '', CHR 0x09])
            then Inr (False, Trim (Name args) [CHR '' '', CHR 0x09])
            else Inl (Fail (Errorf ''Expected a valid name for the machine pool'')))"
  using assms
  by (simp add: machinePoolName_def Let_def bindE_def Trim_idem)

text \<open>
  C4. The name of a machine pool is checked against \<open>machinePoolKeyRE\<close> after the spaces and
  tabs around it are trimmed: \<open>strings.Trim\<close> removes the bytes of the cutset on both sides,
  so a name padded with spaces and tabs is checked, and kept, without them. The expression
  takes exactly the strings of the shape \<^verbatim>\<open>^[a-z]([-a-z0-9]*[a-z0-9])?$\<close>:
  \<open>machinepool1\<close> and \<open>m\<close> followed by 29 times \<open>1\<close> are taken; \<open>1machinepool\<close>,
  \<open>#1machinepool\<close> and every string with a \<open>#\<close>, a \<open>%\<close> or a \<open>$\<close> in it are not. A
  name that \<open>CreateMachinePool\<close> or \<open>CreateNodePools\<close> keeps is trimmed and matches; a
  name that is not kept ends the function with the error
  \<open>Expected a valid name for the machine pool\<close> (followed by the error of the prompt, when
  the prompt failed); outside the interactive mode the name of the options, trimmed, is kept
  exactly when it matches; and the identifier of every machine pool sent matches.
\<close>

theorem C4_name_matches_pattern:
  "MatchString machinePoolKeyRE ''machinepool1''
   \<and> MatchString machinePoolKeyRE (CHR ''m'' # replicate 29 (CHR ''1''))
   \<and> \<not> MatchString machinePoolKeyRE ''1machinepool''
   \<and> \<not> MatchString machinePoolKeyRE ''#1machinepool''
   \<and> (CHR ''#'' \<in> set s \<or> CHR ''%'' \<in> set s \<or> CHR ''$'' \<in> set s
        \<longrightarrow> \<not> MatchString machinePoolKeyRE s)
   \<and> (MatchString machinePoolKeyRE s \<longleftrightarrow> name_shape s)
   \<and> (machinePoolName w args ia0 = Inr (ia, name)
        \<longrightarrow> MatchString machinePoolKeyRE name \<and> Trim name [CHR '' '', CHR 0x09] = name)
   \<and> (machinePoolName w args ia0 = Inl f
        \<longrightarrow> (\<exists>e. f = Fail (Errorf (''Expected a valid name for the machine pool'' @ e))))
   \<and> (\<not> ia0 \<and> Trim (Name args) [CHR '' '', CHR 0x09] \<noteq> []
        \<longrightarrow> machinePoolName w args ia0 =
             (if MatchString machinePoolKeyRE (Trim (Name args) [CHR '' '', CHR 0x09])
              then Inr (False, Trim (Name args) [CHR '' '', CHR 0x09])
              else Inl (Fail (Errorf ''Expected a valid name for the machine pool''))))
   \<and> (mp \<in> set (create_calls (CreateMachinePool w Changed clusterKey cluster args ia0))
        \<longrightarrow> MatchString machinePoolKeyRE (mp_ID mp))
   \<and> Trim ([CHR '' '', CHR 0x09] @ ''machinepool1'' @ [CHR 0x09, CHR '' '']) [CHR '' '', CHR 0x09]
        = ''machinepool1''
   \<and> (set pre \<subseteq> set cutset \<and> set post \<subseteq> set cutset
        \<and> t \<noteq> [] \<and> hd t \<notin> set cutset \<and> last t \<notin> set cutset
        \<longrightarrow> Trim (pre @ t @ post) cutset = t)
   \<and> (\<not> ia0 \<and> Name args = pre @ t @ post
        \<and> set pre \<subseteq> {CHR '' '', CHR 0x09} \<and> set post \<subseteq> {CHR '' '', CHR 0x09}
        \<and> t \<noteq> [] \<and> hd t \<notin> {CHR '' '', CHR 0x09} \<and> last t \<notin> {CHR '' '', CHR 0x09}
        \<longrightarrow> machinePoolName w args ia0 =
             (if MatchString machinePoolKeyRE t then Inr (False, t)
              else Inl (Fail (Errorf ''Expected a valid name for the machine pool''))))"
proof -
  have 1: "MatchString machinePoolKeyRE ''machinepool1''"
    by (simp add: machinePoolKeyRE_def Opt_def)
  have 2: "MatchString machinePoolKeyRE (CHR ''m'' # replicate 29 (CHR ''1''))"
    by code_simp
  have 3: "\<not> MatchString machinePoolKeyRE ''1machinepool''"
    by (simp add: machinePoolKeyRE_def Opt_def)
  have 4: "\<not> MatchString machinePoolKeyRE ''#1machinepool''"
    by (simp add: machinePoolKeyRE_def Opt_def)
  have 5: "CHR ''#'' \<in> set s \<or> CHR ''%'' \<in> set s \<or> CHR ''$'' \<in> set s
        \<longrightarrow> \<not> MatchString machinePoolKeyRE s"
  proof (intro impI notI)
    assume c: "CHR ''#'' \<in> set s \<or> CHR ''%'' \<in> set s \<or> CHR ''$'' \<in> set s"
      and m: "MatchString machinePoolKeyRE s"
    from m have n: "name_shape s" by (simp add: machinePoolKeyRE_shape)
    from c show False
      using name_shape_chars [OF n, of "CHR ''#''"] name_shape_chars [OF n, of "CHR ''%''"]
        name_shape_chars [OF n, of "CHR ''$''"]
      by auto
  qed
  have 10: "mp \<in> set (create_calls (CreateMachinePool w Changed clusterKey cluster args ia0))
        \<longrightarrow> MatchString machinePoolKeyRE (mp_ID mp)"
  proof
    assume "mp \<in> set (create_calls (CreateMachinePool w Changed clusterKey cluster args ia0))"
    then have req: "CreateMachinePool_request w Changed clusterKey cluster args ia0 = Inr mp"
      by (simp add: create_calls_request)
    from request_InrD [OF req] obtain ia' name'
      where "machinePoolName w args ia0 = Inr (ia', name')" and "mp_ID mp = name'"
      by blast
    then show "MatchString machinePoolKeyRE (mp_ID mp)"
      using machinePoolName_InrD by blast
  qed
  have 12: "set pre \<subseteq> set cutset \<and> set post \<subseteq> set cutset
        \<and> t \<noteq> [] \<and> hd t \<notin> set cutset \<and> last t \<notin> set cutset
        \<longrightarrow> Trim (pre @ t @ post) cutset = t"
    using Trim_padded [of pre cutset post t] by blast
  have 13: "machinePoolName w args ia0 =
             (if MatchString machinePoolKeyRE t then Inr (False, t)
              else Inl (Fail (Errorf ''Expected a valid name for the machine pool'')))"
    if h: "\<not> ia0 \<and> Name args = pre @ t @ post
        \<and> set pre \<subseteq> {CHR '' '', CHR 0x09} \<and> set post \<subseteq> {CHR '' '', CHR 0x09}
        \<and> t \<noteq> [] \<and> hd t \<notin> {CHR '' '', CHR 0x09} \<and> last t \<notin> {CHR '' '', CHR 0x09}"
  proof -
    from h have "Trim (pre @ t @ post) [CHR '' '', CHR 0x09] = t"
      using Trim_padded [of pre "[CHR '' '', CHR 0x09]" post t] by simp
    with h have "Trim (Name args) [CHR '' '', CHR 0x09] = t" by simp
    with h show ?thesis
      using machinePoolName_flag [of ia0 args w] by simp
  qed
  show ?thesis
    using 1 2 3 4 5 machinePoolKeyRE_shape [of s] machinePoolName_InrD [of w args ia0 ia name]
      machinePoolName_InlD [of w args ia0 f] machinePoolName_flag [of ia0 args w] 10
      Trim_example 12 13
    by blast
qed

theorem C4_witness:
  "CHR ''#'' \<in> set ''m#123'' \<and> \<not> MatchString machinePoolKeyRE ''m#123''
   \<and> machinePoolName exampleCollaborators exampleOptions False = Inr (False, ''machinepool1'')
   \<and> MatchString machinePoolKeyRE ''machinepool1''
   \<and> machinePoolName exampleCollaborators (exampleOptions \<lparr> Name := ''0909+===..3'' \<rparr>) False
        = Inl (Fail (Errorf ''Expected a valid name for the machine pool''))
   \<and> examplePool \<in> set (create_calls (CreateMachinePool exampleCollaborators
        (flagsSet [''replicas'']) ''test-cluster-key'' exampleCluster exampleOptions False))
   \<and> MatchString machinePoolKeyRE (mp_ID examplePool)
   \<and> Name paddedOptions = [CHR '' '', CHR 0x09] @ ''machinepool1'' @ [CHR 0x09, CHR '' '']
   \<and> Trim (Name paddedOptions) [CHR '' '', CHR 0x09] = ''machinepool1''
   \<and> machinePoolName exampleCollaborators paddedOptions False = Inr (False, ''machinepool1'')
   \<and> create_calls (CreateMachinePool exampleCollaborators (flagsSet [''replicas''])
        ''test-cluster-key'' exampleCluster paddedOptions False) = [examplePool]
   \<and> mp_ID examplePool = ''machinepool1''"
proof -
  have h: "CHR ''#'' \<in> set ''m#123''" by simp
  have t: "Trim (Name (exampleOptions \<lparr> Name := ''0909+===..3'' \<rparr>)) [CHR '' '', CHR 0x09]
             = ''0909+===..3''"
    by (simp add: Trim_def)
  have n: "\<not> MatchString machinePoolKeyRE ''0909+===..3''"
    by (simp add: machinePoolKeyRE_def Opt_def)
  have r: "examplePool \<in> set (create_calls (CreateMachinePool exampleCollaborators
        (flagsSet [''replicas'']) ''test-cluster-key'' exampleCluster exampleOptions False))"
    by (simp add: example_run)
  have p: "Name paddedOptions = [CHR '' '', CHR 0x09] @ ''machinepool1'' @ [CHR 0x09, CHR '' '']"
    by (simp add: paddedOptions_def)
  have i: "mp_ID examplePool = ''machinepool1''"
    by (simp add: examplePool_def)
  note a = C4_name_matches_pattern [of "''m#123''" exampleCollaborators exampleOptions False
      False "''machinepool1''" "Fail (Errorf [])" examplePool "flagsSet [''replicas'']"
      "''test-cluster-key''" exampleCluster "[CHR '' '', CHR 0x09]" "[CHR '' '', CHR 0x09]"
      "[CHR 0x09, CHR '' '']" "''machinepool1''"]
  note b = C4_name_matches_pattern [of "''m#123''" exampleCollaborators
      "exampleOptions \<lparr> Name := ''0909+===..3'' \<rparr>" False
      False "''machinepool1''" "Fail (Errorf [])" examplePool "flagsSet [''replicas'']"
      "''test-cluster-key''" exampleCluster "[CHR '' '', CHR 0x09]" "[CHR '' '', CHR 0x09]"
      "[CHR 0x09, CHR '' '']" "''machinepool1''"]
  note c = C4_name_matches_pattern [of "''m#123''" exampleCollaborators paddedOptions False
      False "''machinepool1''" "Fail (Errorf [])" examplePool "flagsSet [''replicas'']"
      "''test-cluster-key''" exampleCluster "[CHR '' '', CHR 0x09]" "[CHR '' '', CHR 0x09]"
      "[CHR 0x09, CHR '' '']" "''machinepool1''"]
  have m: "machinePoolName exampleCollaborators paddedOptions False = Inr (False, ''machinepool1'')"
    using c p by simp
  have tp: "Trim (Name paddedOptions) [CHR '' '', CHR 0x09] = ''machinepool1''"
    using c p by simp
  show ?thesis
    using a b h t n r example_name p m tp i padded_run by simp
qed

subsection \<open>The validator of the spot max price\<close>

lemma gt_zero_not_le_zero: "gt_zero p \<Longrightarrow> \<not> le_zero p"
  by (cases p) simp_all

lemma spotMaxPriceValidator_str:
  "spotMaxPriceValidator pf bits (StrVal s) =
     (if s = ''on-demand'' then None
      else if snd (pf s bits) \<noteq> None
      then Some (Errorf ''Expected a numeric value for spot max price'')
      else if le_zero (fst (pf s bits)) then Some (Errorf ''Spot max price must be positive'')
      else None)"
  by (cases "pf s bits") (auto simp: spotMaxPriceValidator_def)

text \<open>
  C5. \<open>spotMaxPriceValidator\<close> returns no error for the string \<open>on-demand\<close> and for every
  string that \<open>strconv.ParseFloat\<close> parses without error to a value above zero; it returns
  an error for every other string that \<open>ParseFloat\<close> does not parse, and for every string
  that it parses to a value that is zero or below. \<open>ParseFloat\<close> is any function.
\<close>

theorem C5_spot_max_price_validator:
  "spotMaxPriceValidator pf bits (StrVal ''on-demand'') = None
   \<and> (snd (pf s bits) = None \<and> gt_zero (fst (pf s bits))
        \<longrightarrow> spotMaxPriceValidator pf bits (StrVal s) = None)
   \<and> (s \<noteq> ''on-demand'' \<and> snd (pf s bits) \<noteq> None
        \<longrightarrow> spotMaxPriceValidator pf bits (StrVal s) =
              Some (Errorf ''Expected a numeric value for spot max price''))
   \<and> (s \<noteq> ''on-demand'' \<and> snd (pf s bits) = None \<and> le_zero (fst (pf s bits))
        \<longrightarrow> spotMaxPriceValidator pf bits (StrVal s) =
              Some (Errorf ''Spot max price must be positive''))"
  by (simp add: spotMaxPriceValidator_str gt_zero_not_le_zero)

theorem C5_witness:
  "snd (ParseFloat exampleCollaborators ''0.01'' 64) = None
   \<and> gt_zero (fst (ParseFloat exampleCollaborators ''0.01'' 64))
   \<and> spotMaxPriceValidator (ParseFloat exampleCollaborators) 64 (StrVal ''0.01'') = None
   \<and> snd (ParseFloat exampleCollaborators ''not-a-number'' 64) \<noteq> None
   \<and> spotMaxPriceValidator (ParseFloat exampleCollaborators) 64 (StrVal ''not-a-number'') =
        Some (Errorf ''Expected a numeric value for spot max price'')
   \<and> snd (ParseFloat exampleCollaborators ''-1'' 64) = None
   \<and> le_zero (fst (ParseFloat exampleCollaborators ''-1'' 64))
   \<and> spotMaxPriceValidator (ParseFloat exampleCollaborators) 64 (StrVal ''-1'') =
        Some (Errorf ''Spot max price must be positive'')"
proof -
  have p: "ParseFloat exampleCollaborators ''0.01'' 64 = (Finite (1 / 100), None)"
    "ParseFloat exampleCollaborators ''not-a-number'' 64 = (Finite 0, Some ''invalid syntax'')"
    "ParseFloat exampleCollaborators ''-1'' 64 = (Finite (- 1), None)"
    by (simp_all add: exampleCollaborators_def)
  show ?thesis
    using C5_spot_max_price_validator [of "ParseFloat exampleCollaborators" 64 "''0.01''"]
      C5_spot_max_price_validator [of "ParseFloat exampleCollaborators" 64 "''not-a-number''"]
      C5_spot_max_price_validator [of "ParseFloat exampleCollaborators" 64 "''-1''"]
    by (simp add: p)
qed

subsection \<open>The zones of a machine pool\<close>

lemma subnet_placement:
  "CreateMachinePool_placement localZoneCollaborators (flagsSet [''replicas'', ''subnet''])
     exampleCluster exampleOptions False = Inr (False, [], ''subnet-0b761d44d3d9a4663'')"
  by (simp add: run_defs localZoneCollaborators_def)

text \<open>
  C6. On a multi-AZ cluster with the zones \<open>us-east-1a\<close> and \<open>us-east-1b\<close>,
  \<open>getMachinePoolAvailabilityZones\<close> returns \<open>[us-east-1a]\<close> for a single-AZ machine pool
  with the zone \<open>us-east-1a\<close> and no subnet given, and the zones of the cluster in their
  order for a multi-AZ machine pool without a subnet. With a subnet given it returns the one
  zone that the cloud SDK finds for the subnet (no zone and the error of the lookup, when the
  lookup fails): \<open>CreateMachinePool\<close>, its only caller, gives no zone together with a
  subnet, so this holds for whatever the placement resolves.
\<close>

theorem C6_machine_pool_availability_zones:
  "(MultiAZ cluster \<and> AvailabilityZones cluster = [''us-east-1a'', ''us-east-1b'']
    \<longrightarrow> getMachinePoolAvailabilityZones w cluster False ''us-east-1a'' []
          = ([''us-east-1a''], None)
      \<and> getMachinePoolAvailabilityZones w cluster True az []
          = ([''us-east-1a'', ''us-east-1b''], None)
      \<and> (subnet \<noteq> [] \<and> (multiAZMachinePool \<or> az = [])
           \<longrightarrow> getMachinePoolAvailabilityZones w cluster multiAZMachinePool az subnet =
                 (case GetSubnetAvailabilityZone w subnet of
                    Inl err \<Rightarrow> ([], Some (Errorf err))
                  | Inr zone \<Rightarrow> ([zone], None))))
   \<and> (CreateMachinePool_placement w Changed cluster args ia = Inr (m, availabilityZone, sn)
        \<and> sn \<noteq> []
       \<longrightarrow> availabilityZone = []
         \<and> getMachinePoolAvailabilityZones w cluster m availabilityZone sn =
             (case GetSubnetAvailabilityZone w sn of
                Inl err \<Rightarrow> ([], Some (Errorf err))
              | Inr zone \<Rightarrow> ([zone], None)))"
proof -
  have 1: "MultiAZ cluster \<and> AvailabilityZones cluster = [''us-east-1a'', ''us-east-1b'']
    \<longrightarrow> getMachinePoolAvailabilityZones w cluster False ''us-east-1a'' []
          = ([''us-east-1a''], None)
      \<and> getMachinePoolAvailabilityZones w cluster True az []
          = ([''us-east-1a'', ''us-east-1b''], None)
      \<and> (subnet \<noteq> [] \<and> (multiAZMachinePool \<or> az = [])
           \<longrightarrow> getMachinePoolAvailabilityZones w cluster multiAZMachinePool az subnet =
                 (case GetSubnetAvailabilityZone w subnet of
                    Inl err \<Rightarrow> ([], Some (Errorf err))
                  | Inr zone \<Rightarrow> ([zone], None)))"
    by (auto simp: getMachinePoolAvailabilityZones_def)
  have 2: "availabilityZone = []
         \<and> getMachinePoolAvailabilityZones w cluster m availabilityZone sn =
             (case GetSubnetAvailabilityZone w sn of
                Inl err \<Rightarrow> ([], Some (Errorf err))
              | Inr zone \<Rightarrow> ([zone], None))"
    if h: "CreateMachinePool_placement w Changed cluster args ia = Inr (m, availabilityZone, sn)
        \<and> sn \<noteq> []"
  proof -
    from h placement_InrD [of w Changed cluster args ia m availabilityZone sn]
    have z: "availabilityZone = []" by simp
    with h show ?thesis
      by (simp add: getMachinePoolAvailabilityZones_def)
  qed
  show ?thesis
    using 1 2 by blast
qed

theorem C6_witness:
  "MultiAZ exampleCluster \<and> AvailabilityZones exampleCluster = [''us-east-1a'', ''us-east-1b'']
   \<and> getMachinePoolAvailabilityZones exampleCollaborators exampleCluster False ''us-east-1a'' []
        = ([''us-east-1a''], None)
   \<and> getMachinePoolAvailabilityZones exampleCollaborators exampleCluster True ''us-east-1a'' []
        = ([''us-east-1a'', ''us-east-1b''], None)
   \<and> getMachinePoolAvailabilityZones exampleCollaborators exampleCluster True []
        ''subnet-0f87f640e56934cbc'' = ([''us-east-1b''], None)
   \<and> CreateMachinePool_placement localZoneCollaborators (flagsSet [''replicas'', ''subnet''])
        exampleCluster exampleOptions False = Inr (False, [], ''subnet-0b761d44d3d9a4663'')
   \<and> GetSubnetAvailabilityZone localZoneCollaborators ''subnet-0b761d44d3d9a4663''
        = Inr ''us-east-1-bos-1a''
   \<and> getMachinePoolAvailabilityZones localZoneCollaborators exampleCluster False []
        ''subnet-0b761d44d3d9a4663'' = ([''us-east-1-bos-1a''], None)"
proof -
  have c: "MultiAZ exampleCluster \<and> AvailabilityZones exampleCluster = [''us-east-1a'', ''us-east-1b'']"
    by (simp add: exampleCluster_def)
  have g: "GetSubnetAvailabilityZone exampleCollaborators ''subnet-0f87f640e56934cbc''
             = Inr ''us-east-1b''"
    "GetSubnetAvailabilityZone localZoneCollaborators ''subnet-0b761d44d3d9a4663''
             = Inr ''us-east-1-bos-1a''"
    by (simp_all add: exampleCollaborators_def localZoneCollaborators_def)
  note a = C6_machine_pool_availability_zones [of exampleCluster exampleCollaborators
      "''us-east-1a''" "[]" True "flagsSet [''replicas'', ''subnet'']" exampleOptions False
      False "[]" "''subnet-0b761d44d3d9a4663''"]
  note b = C6_machine_pool_availability_zones [of exampleCluster exampleCollaborators
      "[]" "''subnet-0f87f640e56934cbc''" True "flagsSet [''replicas'', ''subnet'']"
      exampleOptions False False "[]" "''subnet-0b761d44d3d9a4663''"]
  note d = C6_machine_pool_availability_zones [of exampleCluster localZoneCollaborators
      "[]" "''subnet-0f87f640e56934cbc''" True "flagsSet [''replicas'', ''subnet'']"
      exampleOptions False False "[]" "''subnet-0b761d44d3d9a4663''"]
  show ?thesis
    using a b d c g subnet_placement by simp
qed

subsection \<open>Spot instances\<close>

lemma spot_flags_InrD:
  assumes "CreateMachinePool_spot w Changed args ia sn zones = Inr (us, price, maxPrice)"
    and "\<not> ia"
  shows "us = UseSpotInstances args \<and> price = SpotMaxPrice args"
  using assms
  by (auto simp: CreateMachinePool_spot_def Let_def bindE_Inr_iff validated_Inr_iff
      split: if_splits)

lemma spot_run:
  "CreateMachinePool exampleCollaborators spotFlags ''test-cluster-key'' exampleCluster
     spotOptions False =
   \<lparr> create_calls = [spotPool], outcome = Returned None \<rparr>"
  by (simp add: run_defs spotOptions_def spotFlags_def spotPool_def)

lemma on_demand_run:
  "CreateMachinePool exampleCollaborators spotFlags ''test-cluster-key'' exampleCluster
     (spotOptions \<lparr> SpotMaxPrice := ''on-demand'' \<rparr>) False =
   \<lparr> create_calls = [examplePool \<lparr> mp_SpotMarketOptions := Some None \<rparr>],
     outcome = Returned None \<rparr>"
  by (simp add: run_defs spotOptions_def spotFlags_def)

text \<open>
  C10. A machine pool that \<open>CreateMachinePool\<close> sends has spot market options exactly when
  spot instances are used, and these have a max price exactly when the spot max price is not
  the string \<open>on-demand\<close>: then it is the value that \<open>ParseFloat\<close> gives for the string,
  which parses without error and is not zero or below. \<open>useSpot\<close> and \<open>price\<close> are
  what lines 402 to 449 resolve; outside the interactive mode they are \<open>UseSpotInstances\<close>
  and \<open>SpotMaxPrice\<close> of the options.
\<close>

theorem C10_spot_market_options:
  "mp \<in> set (create_calls (CreateMachinePool w Changed clusterKey cluster args ia0))
   \<longrightarrow> (\<exists>ia subnet zones useSpot price.
          CreateMachinePool_spot w Changed args ia subnet zones =
            Inr (useSpot, price,
                 if price \<noteq> ''on-demand''
                 then Some (fst (ParseFloat w price (MaxByteSize w))) else None)
        \<and> mp_SpotMarketOptions mp =
            (if useSpot
             then Some (if price = ''on-demand'' then None
                        else Some (fst (ParseFloat w price (MaxByteSize w))))
             else None)
        \<and> (price = ''on-demand''
             \<or> snd (ParseFloat w price (MaxByteSize w)) = None
               \<and> \<not> le_zero (fst (ParseFloat w price (MaxByteSize w))))
        \<and> (ia \<or> useSpot = UseSpotInstances args \<and> price = SpotMaxPrice args)
        \<and> (Trim (Name args) [CHR '' '', CHR 0x09] = [] \<or> ia = ia0))"
proof
  assume "mp \<in> set (create_calls (CreateMachinePool w Changed clusterKey cluster args ia0))"
  then have req: "CreateMachinePool_request w Changed clusterKey cluster args ia0 = Inr mp"
    by (simp add: create_calls_request)
  from request_InrD [OF req] obtain ia name sn zones us price maxPrice
    where n: "machinePoolName w args ia0 = Inr (ia, name)"
      and s: "CreateMachinePool_spot w Changed args ia sn zones = Inr (us, price, maxPrice)"
      and o: "mp_SpotMarketOptions mp = (if us then Some maxPrice else None)"
    by blast
  from spot_InrD [OF s]
  have m: "maxPrice = (if price \<noteq> ''on-demand''
                       then Some (fst (ParseFloat w price (MaxByteSize w))) else None)"
    and v: "spotMaxPriceValidator (ParseFloat w) (MaxByteSize w) (StrVal price) = None"
    by simp_all
  from v have p: "price = ''on-demand''
      \<or> snd (ParseFloat w price (MaxByteSize w)) = None
        \<and> \<not> le_zero (fst (ParseFloat w price (MaxByteSize w)))"
    by (simp add: spotMaxPriceValidator_str split: if_splits)
  have f: "ia \<or> us = UseSpotInstances args \<and> price = SpotMaxPrice args"
    using spot_flags_InrD [OF s] by blast
  have i: "Trim (Name args) [CHR '' '', CHR 0x09] = [] \<or> ia = ia0"
    using machinePoolName_mode [OF n] by blast
  have o': "mp_SpotMarketOptions mp =
            (if us
             then Some (if price = ''on-demand'' then None
                        else Some (fst (ParseFloat w price (MaxByteSize w))))
             else None)"
    using o m by simp
  from s m o' p f i
  show "\<exists>ia subnet zones useSpot price.
          CreateMachinePool_spot w Changed args ia subnet zones =
            Inr (useSpot, price,
                 if price \<noteq> ''on-demand''
                 then Some (fst (ParseFloat w price (MaxByteSize w))) else None)
        \<and> mp_SpotMarketOptions mp =
            (if useSpot
             then Some (if price = ''on-demand'' then None
                        else Some (fst (ParseFloat w price (MaxByteSize w))))
             else None)
        \<and> (price = ''on-demand''
             \<or> snd (ParseFloat w price (MaxByteSize w)) = None
               \<and> \<not> le_zero (fst (ParseFloat w price (MaxByteSize w))))
        \<and> (ia \<or> useSpot = UseSpotInstances args \<and> price = SpotMaxPrice args)
        \<and> (Trim (Name args) [CHR '' '', CHR 0x09] = [] \<or> ia = ia0)"
    by blast
qed

theorem C10_witness:
  "spotPool \<in> set (create_calls (CreateMachinePool exampleCollaborators spotFlags
      ''test-cluster-key'' exampleCluster spotOptions False))
   \<and> create_calls (CreateMachinePool exampleCollaborators spotFlags ''test-cluster-key''
        exampleCluster (spotOptions \<lparr> SpotMaxPrice := ''on-demand'' \<rparr>) False)
        = [examplePool \<lparr> mp_SpotMarketOptions := Some None \<rparr>]
   \<and> mp_SpotMarketOptions spotPool = Some (Some (Finite (1 / 2)))
   \<and> ParseFloat exampleCollaborators ''0.5'' (MaxByteSize exampleCollaborators)
        = (Finite (1 / 2), None)
   \<and> (\<exists>ia subnet zones useSpot price.
          CreateMachinePool_spot exampleCollaborators spotFlags spotOptions ia subnet zones =
            Inr (useSpot, price,
                 if price \<noteq> ''on-demand''
                 then Some (fst (ParseFloat exampleCollaborators price
                        (MaxByteSize exampleCollaborators))) else None)
        \<and> mp_SpotMarketOptions spotPool =
            (if useSpot
             then Some (if price = ''on-demand'' then None
                        else Some (fst (ParseFloat exampleCollaborators price
                               (MaxByteSize exampleCollaborators))))
             else None))"
proof -
  have h: "spotPool \<in> set (create_calls (CreateMachinePool exampleCollaborators spotFlags
      ''test-cluster-key'' exampleCluster spotOptions False))"
    by (simp add: spot_run)
  have p: "mp_SpotMarketOptions spotPool = Some (Some (Finite (1 / 2)))"
    by (simp add: spotPool_def)
  have f: "ParseFloat exampleCollaborators ''0.5'' (MaxByteSize exampleCollaborators)
        = (Finite (1 / 2), None)"
    by (simp add: exampleCollaborators_def)
  from C10_spot_market_options [of spotPool exampleCollaborators spotFlags
      "''test-cluster-key''" exampleCluster spotOptions False] h
  have "\<exists>ia subnet zones useSpot price.
          CreateMachinePool_spot exampleCollaborators spotFlags spotOptions ia subnet zones =
            Inr (useSpot, price,
                 if price \<noteq> ''on-demand''
                 then Some (fst (ParseFloat exampleCollaborators price
                        (MaxByteSize exampleCollaborators))) else None)
        \<and> mp_SpotMarketOptions spotPool =
            (if useSpot
             then Some (if price = ''on-demand'' then None
                        else Some (fst (ParseFloat exampleCollaborators price
                               (MaxByteSize exampleCollaborators))))
             else None)"
    by blast
  with h p f on_demand_run show ?thesis by simp
qed

subsection \<open>The checks on the flags\<close>

lemma CreateNodePools_conflict:
  assumes "Changed ''subnet''" and "Changed ''availability-zone''"
  shows "CreateNodePools w Changed cluster args ia0 =
           \<lparr> create_calls = [],
             outcome = Returned (Some (Errorf
               (''Setting both `subnet` and `availability-zone` flag is not supported.''
                @ '' Please select `subnet` or `availability-zone` to create a single availability zone machine pool''))) \<rparr>"
  using assms by (simp add: CreateNodePools_def CreateNodePools_placement_def)

lemma flags_conflict_fails:
  assumes "Changed ''subnet''" and "Changed ''availability-zone''"
  shows "\<exists>err. CreateMachinePool_flags w Changed cluster args = Inl (Fail (Errorf err))"
  using assms
  by (cases "IsGreaterThanOrEqual w (VersionRawID cluster)
        (MinVersionForAdditionalComputeSecurityGroupIdsDay2 w)";
      cases "FormatMajorMinorPatch w (MinVersionForAdditionalComputeSecurityGroupIdsDay2 w)")
    (simp_all add: CreateMachinePool_flags_def Let_def)

lemma flags_conflict:
  assumes "Changed ''subnet''" and "Changed ''availability-zone''"
    and "MultiAZ cluster" and "IsBYOVPC w cluster"
    and "IsGreaterThanOrEqual w (VersionRawID cluster)
           (MinVersionForAdditionalComputeSecurityGroupIdsDay2 w) = Inr sgOK"
    and "Changed (MachinePoolSecurityGroupFlag w) \<longrightarrow> sgOK"
  shows "CreateMachinePool_flags w Changed cluster args =
           Inl (Fail (Errorf
             (''Setting both `subnet` and `availability-zone` flag is not supported.''
              @ '' Please select `subnet` or `availability-zone` to create a single availability zone machine pool'')))"
  using assms by (auto simp: CreateMachinePool_flags_def Let_def)

lemma flags_Inl:
  "CreateMachinePool_flags w Changed cluster args = Inl f \<Longrightarrow>
     CreateMachinePool w Changed key cluster args ia0 =
       \<lparr> create_calls = [], outcome = outcome_of f \<rparr>"
  by (simp add: CreateMachinePool_def CreateMachinePool_request_def bindE_def)

text \<open>
  C1, as the specification states it, fails for \<open>CreateMachinePool\<close>: on a cluster that is not
  multi-AZ the check of line 92 comes first, and the error is another one.
\<close>

theorem C1_counterexample:
  "flagsSet [''subnet'', ''availability-zone''] ''subnet''
   \<and> flagsSet [''subnet'', ''availability-zone''] ''availability-zone''
   \<and> outcome (CreateMachinePool exampleCollaborators (flagsSet [''subnet'', ''availability-zone''])
        ''test-cluster-key'' singleAZCluster exampleOptions False)
      = Returned (Some (Errorf
          ''Setting the `availability-zone` flag is only allowed for multi-AZ clusters''))
   \<and> outcome (CreateMachinePool exampleCollaborators (flagsSet [''subnet'', ''availability-zone''])
        ''test-cluster-key'' singleAZCluster exampleOptions False)
      \<noteq> Returned (Some (Errorf
          (''Setting both `subnet` and `availability-zone` flag is not supported.''
           @ '' Please select `subnet` or `availability-zone` to create a single availability zone machine pool'')))"
  by (simp add: run_defs)

text \<open>
  C1, amended. With both the \<open>subnet\<close> and the \<open>availability-zone\<close> flag set,
  \<open>CreateNodePools\<close> fails with the fixed message whatever the rest is. \<open>CreateMachinePool\<close>
  sends no create call and returns an error; the error is the fixed message when no earlier
  check fails, that is when the cluster is multi-AZ and BYO-VPC, the comparison of the
  versions succeeds, and the security-group flag is not set or the version is compatible.
\<close>

theorem C1_subnet_and_availability_zone:
  "Changed ''subnet'' \<and> Changed ''availability-zone''
   \<longrightarrow> CreateNodePools w Changed cluster args ia0 =
           \<lparr> create_calls = [],
             outcome = Returned (Some (Errorf
               (''Setting both `subnet` and `availability-zone` flag is not supported.''
                @ '' Please select `subnet` or `availability-zone` to create a single availability zone machine pool''))) \<rparr>
     \<and> create_calls (CreateMachinePool w Changed clusterKey cluster args ia0) = []
     \<and> (\<exists>err. outcome (CreateMachinePool w Changed clusterKey cluster args ia0)
                 = Returned (Some (Errorf err)))
     \<and> (MultiAZ cluster \<and> IsBYOVPC w cluster
          \<and> IsGreaterThanOrEqual w (VersionRawID cluster)
               (MinVersionForAdditionalComputeSecurityGroupIdsDay2 w) = Inr sgOK
          \<and> (Changed (MachinePoolSecurityGroupFlag w) \<longrightarrow> sgOK)
          \<longrightarrow> CreateMachinePool w Changed clusterKey cluster args ia0 =
                \<lparr> create_calls = [],
                  outcome = Returned (Some (Errorf
                    (''Setting both `subnet` and `availability-zone` flag is not supported.''
                     @ '' Please select `subnet` or `availability-zone` to create a single availability zone machine pool''))) \<rparr>)"
proof (intro impI)
  assume h: "Changed ''subnet'' \<and> Changed ''availability-zone''"
  then have s: "Changed ''subnet''" and z: "Changed ''availability-zone''" by simp_all
  from flags_conflict_fails [OF s z] obtain err
    where "CreateMachinePool_flags w Changed cluster args = Inl (Fail (Errorf err))" by blast
  then have f: "CreateMachinePool w Changed clusterKey cluster args ia0 =
       \<lparr> create_calls = [], outcome = Returned (Some (Errorf err)) \<rparr>"
    using flags_Inl by fastforce
  have g: "CreateMachinePool w Changed clusterKey cluster args ia0 =
                \<lparr> create_calls = [],
                  outcome = Returned (Some (Errorf
                    (''Setting both `subnet` and `availability-zone` flag is not supported.''
                     @ '' Please select `subnet` or `availability-zone` to create a single availability zone machine pool''))) \<rparr>"
    if "MultiAZ cluster \<and> IsBYOVPC w cluster
          \<and> IsGreaterThanOrEqual w (VersionRawID cluster)
               (MinVersionForAdditionalComputeSecurityGroupIdsDay2 w) = Inr sgOK
          \<and> (Changed (MachinePoolSecurityGroupFlag w) \<longrightarrow> sgOK)"
    using flags_conflict [OF s z, of cluster w sgOK args] that flags_Inl by fastforce
  show "CreateNodePools w Changed cluster args ia0 =
           \<lparr> create_calls = [],
             outcome = Returned (Some (Errorf
               (''Setting both `subnet` and `availability-zone` flag is not supported.''
                @ '' Please select `subnet` or `availability-zone` to create a single availability zone machine pool''))) \<rparr>
     \<and> create_calls (CreateMachinePool w Changed clusterKey cluster args ia0) = []
     \<and> (\<exists>err. outcome (CreateMachinePool w Changed clusterKey cluster args ia0)
                 = Returned (Some (Errorf err)))
     \<and> (MultiAZ cluster \<and> IsBYOVPC w cluster
          \<and> IsGreaterThanOrEqual w (VersionRawID cluster)
               (MinVersionForAdditionalComputeSecurityGroupIdsDay2 w) = Inr sgOK
          \<and> (Changed (MachinePoolSecurityGroupFlag w) \<longrightarrow> sgOK)
          \<longrightarrow> CreateMachinePool w Changed clusterKey cluster args ia0 =
                \<lparr> create_calls = [],
                  outcome = Returned (Some (Errorf
                    (''Setting both `subnet` and `availability-zone` flag is not supported.''
                     @ '' Please select `subnet` or `availability-zone` to create a single availability zone machine pool''))) \<rparr>)"
    using CreateNodePools_conflict [OF s z] f g by simp
qed

theorem C1_witness:
  "flagsSet [''subnet'', ''availability-zone''] ''subnet''
   \<and> flagsSet [''subnet'', ''availability-zone''] ''availability-zone''
   \<and> MultiAZ exampleCluster \<and> IsBYOVPC exampleCollaborators exampleCluster
   \<and> IsGreaterThanOrEqual exampleCollaborators (VersionRawID exampleCluster)
        (MinVersionForAdditionalComputeSecurityGroupIdsDay2 exampleCollaborators) = Inr True
   \<and> CreateNodePools exampleCollaborators (flagsSet [''subnet'', ''availability-zone''])
        exampleCluster exampleOptions False =
        \<lparr> create_calls = [],
          outcome = Returned (Some (Errorf
            (''Setting both `subnet` and `availability-zone` flag is not supported.''
             @ '' Please select `subnet` or `availability-zone` to create a single availability zone machine pool''))) \<rparr>
   \<and> CreateMachinePool exampleCollaborators (flagsSet [''subnet'', ''availability-zone''])
        ''test-cluster-key'' exampleCluster exampleOptions False =
        \<lparr> create_calls = [],
          outcome = Returned (Some (Errorf
            (''Setting both `subnet` and `availability-zone` flag is not supported.''
             @ '' Please select `subnet` or `availability-zone` to create a single availability zone machine pool''))) \<rparr>"
proof -
  have h: "flagsSet [''subnet'', ''availability-zone''] ''subnet''
      \<and> flagsSet [''subnet'', ''availability-zone''] ''availability-zone''"
    by (simp add: flagsSet_def)
  have c: "MultiAZ exampleCluster \<and> IsBYOVPC exampleCollaborators exampleCluster
      \<and> IsGreaterThanOrEqual exampleCollaborators (VersionRawID exampleCluster)
           (MinVersionForAdditionalComputeSecurityGroupIdsDay2 exampleCollaborators) = Inr True"
    by (simp add: exampleCluster_def exampleCollaborators_def)
  show ?thesis
    using C1_subnet_and_availability_zone [of "flagsSet [''subnet'', ''availability-zone'']"
        exampleCollaborators exampleCluster exampleOptions False "''test-cluster-key''" True]
      h c
    by simp
qed

lemma flags_security_groups_fail:
  assumes "Changed (MachinePoolSecurityGroupFlag w)"
    and "\<not> IsBYOVPC w cluster
         \<or> IsGreaterThanOrEqual w (VersionRawID cluster)
              (MinVersionForAdditionalComputeSecurityGroupIdsDay2 w) = Inr False"
  shows "\<exists>err. CreateMachinePool_flags w Changed cluster args = Inl (Fail (Errorf err))"
  using assms
  by (cases "IsGreaterThanOrEqual w (VersionRawID cluster)
        (MinVersionForAdditionalComputeSecurityGroupIdsDay2 w)";
      cases "FormatMajorMinorPatch w (MinVersionForAdditionalComputeSecurityGroupIdsDay2 w)")
    (auto simp: CreateMachinePool_flags_def Let_def)

lemma flags_security_groups_byovpc:
  assumes "Changed (MachinePoolSecurityGroupFlag w)"
    and "\<not> IsBYOVPC w cluster"
    and "Changed ''multi-availability-zone'' \<or> Changed ''availability-zone'' \<longrightarrow> MultiAZ cluster"
    and "\<not> Changed ''subnet''"
    and "IsGreaterThanOrEqual w (VersionRawID cluster)
           (MinVersionForAdditionalComputeSecurityGroupIdsDay2 w) = Inr sgOK"
  shows "CreateMachinePool_flags w Changed cluster args =
           Inl (Fail (Errorf (''Setting the `'' @ MachinePoolSecurityGroupFlag w
             @ ''` flag is only allowed for BYOVPC clusters'')))"
  using assms by (auto simp: CreateMachinePool_flags_def Let_def)

lemma flags_security_groups_version:
  assumes "Changed (MachinePoolSecurityGroupFlag w)"
    and "IsBYOVPC w cluster"
    and "Changed ''multi-availability-zone'' \<or> Changed ''availability-zone'' \<longrightarrow> MultiAZ cluster"
    and "IsGreaterThanOrEqual w (VersionRawID cluster)
           (MinVersionForAdditionalComputeSecurityGroupIdsDay2 w) = Inr False"
    and "FormatMajorMinorPatch w (MinVersionForAdditionalComputeSecurityGroupIdsDay2 w)
           = Inr formattedVersion"
  shows "CreateMachinePool_flags w Changed cluster args =
           Inl (Fail (Errorf (''Parameter '' @ quote (MachinePoolSecurityGroupFlag w)
             @ '' is not supported prior to version '' @ quote formattedVersion)))"
  using assms by (auto simp: CreateMachinePool_flags_def Let_def)

text \<open>
  C7. In \<open>CreateMachinePool\<close>, with the security-group flag set, on a cluster that is not
  BYO-VPC or whose version is below the minimum, no create call is sent and an error is
  returned. The checks run in the order of the source and the first that fails ends the
  function: when the checks before pass (the flags \<open>multi-availability-zone\<close> and
  \<open>availability-zone\<close> are set only on a multi-AZ cluster, the \<open>subnet\<close> flag is not set
  on a cluster that is not BYO-VPC, the comparison of the versions succeeds), a cluster that
  is not BYO-VPC gives the error \<open>only allowed for BYOVPC clusters\<close>, and a BYO-VPC cluster
  with a version below the minimum gives the error \<open>not supported prior to version\<close> with
  the formatted minimum.
\<close>

theorem C7_security_group_ids_flag:
  "Changed (MachinePoolSecurityGroupFlag w)
   \<longrightarrow> (\<not> IsBYOVPC w cluster
          \<or> IsGreaterThanOrEqual w (VersionRawID cluster)
               (MinVersionForAdditionalComputeSecurityGroupIdsDay2 w) = Inr False
         \<longrightarrow> create_calls (CreateMachinePool w Changed clusterKey cluster args ia0) = []
           \<and> (\<exists>err. outcome (CreateMachinePool w Changed clusterKey cluster args ia0)
                       = Returned (Some (Errorf err))))
     \<and> (\<not> IsBYOVPC w cluster
          \<and> (Changed ''multi-availability-zone'' \<or> Changed ''availability-zone''
               \<longrightarrow> MultiAZ cluster)
          \<and> \<not> Changed ''subnet''
          \<and> IsGreaterThanOrEqual w (VersionRawID cluster)
               (MinVersionForAdditionalComputeSecurityGroupIdsDay2 w) = Inr sgOK
         \<longrightarrow> CreateMachinePool w Changed clusterKey cluster args ia0 =
               \<lparr> create_calls = [],
                 outcome = Returned (Some (Errorf (''Setting the `''
                   @ MachinePoolSecurityGroupFlag w
                   @ ''` flag is only allowed for BYOVPC clusters''))) \<rparr>)
     \<and> (IsBYOVPC w cluster
          \<and> (Changed ''multi-availability-zone'' \<or> Changed ''availability-zone''
               \<longrightarrow> MultiAZ cluster)
          \<and> IsGreaterThanOrEqual w (VersionRawID cluster)
               (MinVersionForAdditionalComputeSecurityGroupIdsDay2 w) = Inr False
          \<and> FormatMajorMinorPatch w (MinVersionForAdditionalComputeSecurityGroupIdsDay2 w)
               = Inr formattedVersion
         \<longrightarrow> CreateMachinePool w Changed clusterKey cluster args ia0 =
               \<lparr> create_calls = [],
                 outcome = Returned (Some (Errorf (''Parameter ''
                   @ quote (MachinePoolSecurityGroupFlag w)
                   @ '' is not supported prior to version '' @ quote formattedVersion))) \<rparr>)"
proof (intro impI conjI)
  assume c: "Changed (MachinePoolSecurityGroupFlag w)"
    and "\<not> IsBYOVPC w cluster
          \<or> IsGreaterThanOrEqual w (VersionRawID cluster)
               (MinVersionForAdditionalComputeSecurityGroupIdsDay2 w) = Inr False"
  then obtain err
    where "CreateMachinePool_flags w Changed cluster args = Inl (Fail (Errorf err))"
    using flags_security_groups_fail [of Changed w cluster args] by blast
  then have f: "CreateMachinePool w Changed clusterKey cluster args ia0 =
       \<lparr> create_calls = [], outcome = Returned (Some (Errorf err)) \<rparr>"
    using flags_Inl by fastforce
  from f show "create_calls (CreateMachinePool w Changed clusterKey cluster args ia0) = []"
    by simp
  from f show "\<exists>err. outcome (CreateMachinePool w Changed clusterKey cluster args ia0)
                       = Returned (Some (Errorf err))"
    by simp
next
  assume "Changed (MachinePoolSecurityGroupFlag w)"
    and "\<not> IsBYOVPC w cluster
          \<and> (Changed ''multi-availability-zone'' \<or> Changed ''availability-zone''
               \<longrightarrow> MultiAZ cluster)
          \<and> \<not> Changed ''subnet''
          \<and> IsGreaterThanOrEqual w (VersionRawID cluster)
               (MinVersionForAdditionalComputeSecurityGroupIdsDay2 w) = Inr sgOK"
  then have "CreateMachinePool_flags w Changed cluster args =
           Inl (Fail (Errorf (''Setting the `'' @ MachinePoolSecurityGroupFlag w
             @ ''` flag is only allowed for BYOVPC clusters'')))"
    using flags_security_groups_byovpc [of Changed w cluster sgOK args] by blast
  then show "CreateMachinePool w Changed clusterKey cluster args ia0 =
               \<lparr> create_calls = [],
                 outcome = Returned (Some (Errorf (''Setting the `''
                   @ MachinePoolSecurityGroupFlag w
                   @ ''` flag is only allowed for BYOVPC clusters''))) \<rparr>"
    using flags_Inl by fastforce
next
  assume "Changed (MachinePoolSecurityGroupFlag w)"
    and "IsBYOVPC w cluster
          \<and> (Changed ''multi-availability-zone'' \<or> Changed ''availability-zone''
               \<longrightarrow> MultiAZ cluster)
          \<and> IsGreaterThanOrEqual w (VersionRawID cluster)
               (MinVersionForAdditionalComputeSecurityGroupIdsDay2 w) = Inr False
          \<and> FormatMajorMinorPatch w (MinVersionForAdditionalComputeSecurityGroupIdsDay2 w)
               = Inr formattedVersion"
  then have "CreateMachinePool_flags w Changed cluster args =
           Inl (Fail (Errorf (''Parameter '' @ quote (MachinePoolSecurityGroupFlag w)
             @ '' is not supported prior to version '' @ quote formattedVersion)))"
    using flags_security_groups_version [of Changed w cluster formattedVersion args] by blast
  then show "CreateMachinePool w Changed clusterKey cluster args ia0 =
               \<lparr> create_calls = [],
                 outcome = Returned (Some (Errorf (''Parameter ''
                   @ quote (MachinePoolSecurityGroupFlag w)
                   @ '' is not supported prior to version '' @ quote formattedVersion))) \<rparr>"
    using flags_Inl by fastforce
qed

theorem C7_witness:
  "flagsSet [''additional-security-group-ids''] (MachinePoolSecurityGroupFlag exampleCollaborators)
   \<and> \<not> IsBYOVPC exampleCollaborators singleAZCluster
   \<and> CreateMachinePool exampleCollaborators (flagsSet [''additional-security-group-ids''])
        ''test-cluster-key'' singleAZCluster exampleOptions False =
        \<lparr> create_calls = [],
          outcome = Returned (Some (Errorf
            ''Setting the `additional-security-group-ids` flag is only allowed for BYOVPC clusters'')) \<rparr>
   \<and> IsBYOVPC exampleCollaborators (exampleCluster \<lparr> VersionRawID := ''4.10.0'' \<rparr>)
   \<and> IsGreaterThanOrEqual exampleCollaborators ''4.10.0''
        (MinVersionForAdditionalComputeSecurityGroupIdsDay2 exampleCollaborators) = Inr False
   \<and> CreateMachinePool exampleCollaborators (flagsSet [''additional-security-group-ids''])
        ''test-cluster-key'' (exampleCluster \<lparr> VersionRawID := ''4.10.0'' \<rparr>) exampleOptions False =
        \<lparr> create_calls = [],
          outcome = Returned (Some (Errorf (''Parameter '' @ quote ''additional-security-group-ids''
            @ '' is not supported prior to version '' @ quote ''4.11.0''))) \<rparr>"
proof -
  have h: "flagsSet [''additional-security-group-ids'']
             (MachinePoolSecurityGroupFlag exampleCollaborators)"
    "\<not> flagsSet [''additional-security-group-ids''] ''multi-availability-zone''"
    "\<not> flagsSet [''additional-security-group-ids''] ''availability-zone''"
    "\<not> flagsSet [''additional-security-group-ids''] ''subnet''"
    by (simp_all add: flagsSet_def exampleCollaborators_def)
  have c: "\<not> IsBYOVPC exampleCollaborators singleAZCluster"
    "IsBYOVPC exampleCollaborators (exampleCluster \<lparr> VersionRawID := ''4.10.0'' \<rparr>)"
    "IsGreaterThanOrEqual exampleCollaborators (VersionRawID singleAZCluster)
        (MinVersionForAdditionalComputeSecurityGroupIdsDay2 exampleCollaborators) = Inr True"
    "IsGreaterThanOrEqual exampleCollaborators ''4.10.0''
        (MinVersionForAdditionalComputeSecurityGroupIdsDay2 exampleCollaborators) = Inr False"
    "FormatMajorMinorPatch exampleCollaborators
        (MinVersionForAdditionalComputeSecurityGroupIdsDay2 exampleCollaborators) = Inr ''4.11.0''"
    "MachinePoolSecurityGroupFlag exampleCollaborators = ''additional-security-group-ids''"
    by (simp_all add: exampleCollaborators_def exampleCluster_def singleAZCluster_def)
  note a = C7_security_group_ids_flag [of "flagsSet [''additional-security-group-ids'']"
      exampleCollaborators singleAZCluster "''test-cluster-key''" exampleOptions False True
      "''4.11.0''"]
  note b = C7_security_group_ids_flag [of "flagsSet [''additional-security-group-ids'']"
      exampleCollaborators "exampleCluster \<lparr> VersionRawID := ''4.10.0'' \<rparr>"
      "''test-cluster-key''" exampleOptions False False "''4.11.0''"]
  show ?thesis
    using a b h c by simp
qed

subsection \<open>Autoscaling and replicas\<close>

lemma scaling_replicas_with_autoscaling:
  assumes "AutoscalingEnabled args" and "Changed ''replicas''"
  shows "CreateMachinePool_scaling w Changed args ia m =
           Inl (Fail (Errorf ''Replicas can't be set when autoscaling is enabled''))"
    and "CreateNodePools_scaling nw Changed args ia =
           Inl (Fail (Errorf ''Replicas can't be set when autoscaling is enabled''))"
  using assms
  by (simp_all add: CreateMachinePool_scaling_def CreateNodePools_scaling_def Let_def bindE_def)

lemma scaling_min_max_without_autoscaling:
  assumes "\<not> AutoscalingEnabled args"
    and "Changed ''min-replicas'' \<or> Changed ''max-replicas''"
    and "Changed ''replicas'' \<or> Changed ''enable-autoscaling'' \<or> \<not> ia
         \<or> GetBool_autoscaling w False = Inr False"
  shows "CreateMachinePool_scaling w Changed args ia m =
           Inl (Fail (Errorf ''Autoscaling must be enabled in order to set min and max replicas''))"
    and "CreateNodePools_scaling w Changed args ia =
           Inl (Fail (Errorf ''Autoscaling must be enabled in order to set min and max replicas''))"
  using assms
  by (auto simp: CreateMachinePool_scaling_def CreateNodePools_scaling_def Let_def bindE_def
      wrapE_def)

lemma scaling_min_max_fails:
  assumes "\<not> AutoscalingEnabled args"
    and "Changed ''min-replicas'' \<or> Changed ''max-replicas''"
    and "Changed ''replicas'' \<or> Changed ''enable-autoscaling''
         \<or> GetBool_autoscaling w False \<noteq> Inr True"
  shows "\<exists>f. CreateMachinePool_scaling w Changed args ia m = Inl f"
    and "\<exists>f. CreateNodePools_scaling w Changed args ia = Inl f"
  using assms
  by (cases "GetBool_autoscaling w False";
      auto simp: CreateMachinePool_scaling_def CreateNodePools_scaling_def Let_def bindE_def
        wrapE_def)+

lemma outcome_of_not_nil: "outcome_of f \<noteq> Returned None"
  by (cases f) simp_all

lemma CreateMachinePool_scaling_fails:
  assumes "\<And>ia m. \<exists>f. CreateMachinePool_scaling w Changed args ia m = Inl f"
  shows "create_calls (CreateMachinePool w Changed key cluster args ia0) = []
       \<and> outcome (CreateMachinePool w Changed key cluster args ia0) \<noteq> Returned None"
proof (cases "CreateMachinePool_request w Changed key cluster args ia0")
  case (Inl f)
  then show ?thesis
    by (simp add: request_Inl outcome_of_not_nil)
next
  case (Inr mp)
  from request_InrD [OF Inr] obtain ia m a mn mx r
    where "CreateMachinePool_scaling w Changed args ia m = Inr (a, mn, mx, r)" by blast
  with assms [of ia m] show ?thesis by auto
qed

lemma CreateNodePools_scaling_fails:
  assumes "\<And>ia. \<exists>f. CreateNodePools_scaling w Changed args ia = Inl f"
  shows "create_calls (CreateNodePools w Changed cluster args ia0) = []
       \<and> outcome (CreateNodePools w Changed cluster args ia0) \<noteq> Returned None"
proof (cases "CreateNodePools_placement w Changed cluster args ia0")
  case (Inl f)
  then show ?thesis
    by (simp add: CreateNodePools_def outcome_of_not_nil)
next
  case (Inr p)
  obtain ia name version subnet where p: "p = (ia, name, version, subnet)"
    by (cases p) auto
  from assms [of ia] obtain f where "CreateNodePools_scaling w Changed args ia = Inl f"
    by blast
  with Inr p show ?thesis
    by (simp add: CreateNodePools_def outcome_of_not_nil)
qed

lemma CreateMachinePool_scaling_Inl:
  assumes "CreateMachinePool_flags w Changed cluster args = Inr sgOK"
    and "machinePoolName w args ia0 = Inr (ia, name)"
    and "CreateMachinePool_placement w Changed cluster args ia = Inr (m, az, sn)"
    and "CreateMachinePool_scaling w Changed args ia m = Inl f"
  shows "CreateMachinePool w Changed key cluster args ia0 =
           \<lparr> create_calls = [], outcome = outcome_of f \<rparr>"
  using assms
  by (simp add: CreateMachinePool_def CreateMachinePool_request_def bindE_def)

lemma CreateNodePools_scaling_Inl:
  assumes "CreateNodePools_placement w Changed cluster args ia0 = Inr (ia, name, version, subnet)"
    and "CreateNodePools_scaling w Changed args ia = Inl f"
  shows "CreateNodePools w Changed cluster args ia0 =
           \<lparr> create_calls = [], outcome = outcome_of f \<rparr>"
  using assms
  by (simp add: CreateNodePools_def)

lemmas node_pool_run_defs =
  CreateNodePools_def CreateNodePools_placement_def CreateNodePools_version_def
  CreateNodePools_scaling_def getSubnetFromAvailabilityZone_def

lemma example_node_pool_placement:
  "CreateNodePools_placement exampleCollaborators (flagsSet [''enable-autoscaling'', ''replicas''])
     exampleCluster autoscalingOptions False =
     Inr (False, ''machinepool1'', [], ''subnet-0b761d44d3d9a4663'')"
  "CreateNodePools_placement exampleCollaborators (flagsSet [''min-replicas''])
     exampleCluster exampleOptions False =
     Inr (False, ''machinepool1'', [], ''subnet-0b761d44d3d9a4663'')"
  by (simp_all add: node_pool_run_defs run_defs autoscalingOptions_def)

text \<open>
  C8. In \<open>CreateMachinePool\<close> and in \<open>CreateNodePools\<close>, whatever the numbers are:
  with autoscaling on in the options and the \<open>replicas\<close> flag set, no create call is sent
  and the function does not return \<open>nil\<close>, and when the blocks before the one of the
  replicas succeed the error is \<open>Replicas can't be set when autoscaling is enabled\<close>; with
  autoscaling off in the options, \<open>min-replicas\<close> or \<open>max-replicas\<close> set, and autoscaling
  not switched on at the prompt, no create call is sent and the function does not return
  \<open>nil\<close>, and when the blocks before succeed and the prompt, if it is shown, answers no, the
  error is \<open>Autoscaling must be enabled in order to set min and max replicas\<close>. The blocks
  run in the order of the source and the first that fails ends the function.
\<close>

theorem C8_autoscaling_or_replicas:
  "(AutoscalingEnabled args \<and> Changed ''replicas''
     \<longrightarrow> create_calls (CreateMachinePool w Changed clusterKey cluster args ia0) = []
       \<and> outcome (CreateMachinePool w Changed clusterKey cluster args ia0) \<noteq> Returned None
       \<and> create_calls (CreateNodePools w Changed cluster args ia0) = []
       \<and> outcome (CreateNodePools w Changed cluster args ia0) \<noteq> Returned None
       \<and> (CreateMachinePool_flags w Changed cluster args = Inr sgOK
            \<and> machinePoolName w args ia0 = Inr (ia, name)
            \<and> CreateMachinePool_placement w Changed cluster args ia = Inr (m, az, sn)
           \<longrightarrow> CreateMachinePool w Changed clusterKey cluster args ia0 =
                 \<lparr> create_calls = [],
                   outcome = Returned (Some (Errorf
                     ''Replicas can't be set when autoscaling is enabled'')) \<rparr>)
       \<and> (CreateNodePools_placement w Changed cluster args ia0 = Inr (nia, nname, version, subnet)
           \<longrightarrow> CreateNodePools w Changed cluster args ia0 =
                 \<lparr> create_calls = [],
                   outcome = Returned (Some (Errorf
                     ''Replicas can't be set when autoscaling is enabled'')) \<rparr>))
   \<and> (\<not> AutoscalingEnabled args \<and> (Changed ''min-replicas'' \<or> Changed ''max-replicas'')
     \<longrightarrow> (Changed ''replicas'' \<or> Changed ''enable-autoscaling''
            \<or> GetBool_autoscaling w False \<noteq> Inr True
           \<longrightarrow> create_calls (CreateMachinePool w Changed clusterKey cluster args ia0) = []
             \<and> outcome (CreateMachinePool w Changed clusterKey cluster args ia0) \<noteq> Returned None
             \<and> create_calls (CreateNodePools w Changed cluster args ia0) = []
             \<and> outcome (CreateNodePools w Changed cluster args ia0) \<noteq> Returned None)
       \<and> (CreateMachinePool_flags w Changed cluster args = Inr sgOK
            \<and> machinePoolName w args ia0 = Inr (ia, name)
            \<and> CreateMachinePool_placement w Changed cluster args ia = Inr (m, az, sn)
            \<and> (Changed ''replicas'' \<or> Changed ''enable-autoscaling'' \<or> \<not> ia
                 \<or> GetBool_autoscaling w False = Inr False)
           \<longrightarrow> CreateMachinePool w Changed clusterKey cluster args ia0 =
                 \<lparr> create_calls = [],
                   outcome = Returned (Some (Errorf
                     ''Autoscaling must be enabled in order to set min and max replicas'')) \<rparr>)
       \<and> (CreateNodePools_placement w Changed cluster args ia0 = Inr (nia, nname, version, subnet)
            \<and> (Changed ''replicas'' \<or> Changed ''enable-autoscaling'' \<or> \<not> nia
                 \<or> GetBool_autoscaling w False = Inr False)
           \<longrightarrow> CreateNodePools w Changed cluster args ia0 =
                 \<lparr> create_calls = [],
                   outcome = Returned (Some (Errorf
                     ''Autoscaling must be enabled in order to set min and max replicas'')) \<rparr>))"
proof -
  have A: "create_calls (CreateMachinePool w Changed clusterKey cluster args ia0) = []
       \<and> outcome (CreateMachinePool w Changed clusterKey cluster args ia0) \<noteq> Returned None
       \<and> create_calls (CreateNodePools w Changed cluster args ia0) = []
       \<and> outcome (CreateNodePools w Changed cluster args ia0) \<noteq> Returned None"
    if h: "AutoscalingEnabled args \<and> Changed ''replicas''"
  proof -
    have 1: "\<exists>f. CreateMachinePool_scaling w Changed args ia m = Inl f" for ia m
      using h scaling_replicas_with_autoscaling(1) [of args Changed w ia m] by simp
    have 2: "\<exists>f. CreateNodePools_scaling w Changed args ia = Inl f" for ia
      using h scaling_replicas_with_autoscaling(2) [of args Changed w ia] by simp
    show ?thesis
      using CreateMachinePool_scaling_fails [OF 1] CreateNodePools_scaling_fails [OF 2] by simp
  qed
  have B: "CreateMachinePool w Changed clusterKey cluster args ia0 =
                 \<lparr> create_calls = [],
                   outcome = Returned (Some (Errorf
                     ''Replicas can't be set when autoscaling is enabled'')) \<rparr>"
    if "AutoscalingEnabled args \<and> Changed ''replicas''"
      and "CreateMachinePool_flags w Changed cluster args = Inr sgOK
            \<and> machinePoolName w args ia0 = Inr (ia, name)
            \<and> CreateMachinePool_placement w Changed cluster args ia = Inr (m, az, sn)"
    using that scaling_replicas_with_autoscaling(1) [of args Changed w ia m]
      CreateMachinePool_scaling_Inl [of w Changed cluster args sgOK ia0 ia name m az sn _ clusterKey]
    by simp
  have C: "CreateNodePools w Changed cluster args ia0 =
                 \<lparr> create_calls = [],
                   outcome = Returned (Some (Errorf
                     ''Replicas can't be set when autoscaling is enabled'')) \<rparr>"
    if "AutoscalingEnabled args \<and> Changed ''replicas''"
      and "CreateNodePools_placement w Changed cluster args ia0 = Inr (nia, nname, version, subnet)"
    using that scaling_replicas_with_autoscaling(2) [of args Changed w nia]
      CreateNodePools_scaling_Inl [of w Changed cluster args ia0 nia nname version subnet]
    by simp
  have D: "create_calls (CreateMachinePool w Changed clusterKey cluster args ia0) = []
             \<and> outcome (CreateMachinePool w Changed clusterKey cluster args ia0) \<noteq> Returned None
             \<and> create_calls (CreateNodePools w Changed cluster args ia0) = []
             \<and> outcome (CreateNodePools w Changed cluster args ia0) \<noteq> Returned None"
    if "\<not> AutoscalingEnabled args \<and> (Changed ''min-replicas'' \<or> Changed ''max-replicas'')"
      and "Changed ''replicas'' \<or> Changed ''enable-autoscaling''
            \<or> GetBool_autoscaling w False \<noteq> Inr True"
  proof -
    have 1: "\<exists>f. CreateMachinePool_scaling w Changed args ia m = Inl f" for ia m
      using that scaling_min_max_fails(1) [of args Changed w ia m] by simp
    have 2: "\<exists>f. CreateNodePools_scaling w Changed args ia = Inl f" for ia
      using that scaling_min_max_fails(2) [of args Changed w ia] by simp
    show ?thesis
      using CreateMachinePool_scaling_fails [OF 1] CreateNodePools_scaling_fails [OF 2] by simp
  qed
  have E: "CreateMachinePool w Changed clusterKey cluster args ia0 =
                 \<lparr> create_calls = [],
                   outcome = Returned (Some (Errorf
                     ''Autoscaling must be enabled in order to set min and max replicas'')) \<rparr>"
    if "\<not> AutoscalingEnabled args \<and> (Changed ''min-replicas'' \<or> Changed ''max-replicas'')"
      and "CreateMachinePool_flags w Changed cluster args = Inr sgOK
            \<and> machinePoolName w args ia0 = Inr (ia, name)
            \<and> CreateMachinePool_placement w Changed cluster args ia = Inr (m, az, sn)
            \<and> (Changed ''replicas'' \<or> Changed ''enable-autoscaling'' \<or> \<not> ia
                 \<or> GetBool_autoscaling w False = Inr False)"
    using that scaling_min_max_without_autoscaling(1) [of args Changed ia w m]
      CreateMachinePool_scaling_Inl [of w Changed cluster args sgOK ia0 ia name m az sn _ clusterKey]
    by simp
  have F: "CreateNodePools w Changed cluster args ia0 =
                 \<lparr> create_calls = [],
                   outcome = Returned (Some (Errorf
                     ''Autoscaling must be enabled in order to set min and max replicas'')) \<rparr>"
    if "\<not> AutoscalingEnabled args \<and> (Changed ''min-replicas'' \<or> Changed ''max-replicas'')"
      and "CreateNodePools_placement w Changed cluster args ia0 = Inr (nia, nname, version, subnet)
            \<and> (Changed ''replicas'' \<or> Changed ''enable-autoscaling'' \<or> \<not> nia
                 \<or> GetBool_autoscaling w False = Inr False)"
    using that scaling_min_max_without_autoscaling(2) [of args Changed nia w]
      CreateNodePools_scaling_Inl [of w Changed cluster args ia0 nia nname version subnet]
    by simp
  show ?thesis
    using A B C D E F by blast
qed

theorem C8_witness:
  "AutoscalingEnabled autoscalingOptions
   \<and> flagsSet [''enable-autoscaling'', ''replicas''] ''replicas''
   \<and> CreateMachinePool exampleCollaborators (flagsSet [''enable-autoscaling'', ''replicas''])
        ''test-cluster-key'' exampleCluster autoscalingOptions False =
        \<lparr> create_calls = [],
          outcome = Returned (Some (Errorf
            ''Replicas can't be set when autoscaling is enabled'')) \<rparr>
   \<and> CreateNodePools exampleCollaborators (flagsSet [''enable-autoscaling'', ''replicas''])
        exampleCluster autoscalingOptions False =
        \<lparr> create_calls = [],
          outcome = Returned (Some (Errorf
            ''Replicas can't be set when autoscaling is enabled'')) \<rparr>
   \<and> \<not> AutoscalingEnabled exampleOptions
   \<and> flagsSet [''min-replicas''] ''min-replicas''
   \<and> CreateMachinePool exampleCollaborators (flagsSet [''min-replicas''])
        ''test-cluster-key'' exampleCluster exampleOptions False =
        \<lparr> create_calls = [],
          outcome = Returned (Some (Errorf
            ''Autoscaling must be enabled in order to set min and max replicas'')) \<rparr>
   \<and> CreateNodePools exampleCollaborators (flagsSet [''min-replicas''])
        exampleCluster exampleOptions False =
        \<lparr> create_calls = [],
          outcome = Returned (Some (Errorf
            ''Autoscaling must be enabled in order to set min and max replicas'')) \<rparr>"
proof -
  have o: "AutoscalingEnabled autoscalingOptions" "\<not> AutoscalingEnabled exampleOptions"
    "flagsSet [''enable-autoscaling'', ''replicas''] ''replicas''"
    "flagsSet [''min-replicas''] ''min-replicas''"
    by (simp_all add: autoscalingOptions_def exampleOptions_def flagsSet_def)
  have f: "CreateMachinePool_flags exampleCollaborators
        (flagsSet [''enable-autoscaling'', ''replicas'']) exampleCluster autoscalingOptions = Inr True"
    "CreateMachinePool_flags exampleCollaborators
        (flagsSet [''min-replicas'']) exampleCluster exampleOptions = Inr True"
    by (simp_all add: run_defs autoscalingOptions_def)
  have n: "machinePoolName exampleCollaborators autoscalingOptions False
             = Inr (False, ''machinepool1'')"
    by (simp add: run_defs autoscalingOptions_def)
  have p: "CreateMachinePool_placement exampleCollaborators
        (flagsSet [''enable-autoscaling'', ''replicas'']) exampleCluster autoscalingOptions False
        = Inr (True, [], [])"
    "CreateMachinePool_placement exampleCollaborators
        (flagsSet [''min-replicas'']) exampleCluster exampleOptions False = Inr (True, [], [])"
    by (simp_all add: run_defs autoscalingOptions_def)
  note a = C8_autoscaling_or_replicas [of autoscalingOptions
      "flagsSet [''enable-autoscaling'', ''replicas'']" exampleCollaborators "''test-cluster-key''"
      exampleCluster False True False "''machinepool1''" True "[]" "[]"
      False "''machinepool1''" "[]" "''subnet-0b761d44d3d9a4663''"]
  note b = C8_autoscaling_or_replicas [of exampleOptions
      "flagsSet [''min-replicas'']" exampleCollaborators "''test-cluster-key''"
      exampleCluster False True False "''machinepool1''" True "[]" "[]"
      False "''machinepool1''" "[]" "''subnet-0b761d44d3d9a4663''"]
  show ?thesis
    using a b o f n p example_name example_node_pool_placement by simp
qed

subsection \<open>Spot instances and local zones\<close>


























end
